theory Spec2Isabelle
  imports Main "HOL-Library.Signed_Division" "HOL-Library.Log_Nat" "HOL-Library.AList"
begin

section \<open>Data model (pkg/types, internal/cloud/errors.go)\<close>

text \<open>
  A \<^verbatim>\<open>time.Time\<close> is modelled by the number of nanoseconds since Go's zero time, so that
  \<^verbatim>\<open>t.IsZero()\<close> is \<open>t = 0\<close>, \<^verbatim>\<open>t.Add(d)\<close> is \<open>t + d\<close>, \<^verbatim>\<open>t.Before(u)\<close> is \<open>t < u\<close> and
  \<^verbatim>\<open>time.Since(t)\<close> is the clock reading minus \<open>t\<close>. A \<^verbatim>\<open>time.Duration\<close> is a number of
  nanoseconds. Go's \<^verbatim>\<open>int\<close> is modelled by \<open>int\<close>; buffer lengths and counts stay far inside
  its 64 bits, and where a computation can leave them (the cost accrual of the monitor) the
  wrap-around is written out. \<^verbatim>\<open>Platform\<close> and \<^verbatim>\<open>InstanceState\<close> are Go string
  types and stay strings here.
\<close>

type_synonym Time = int
type_synonym Duration = int
type_synonym Platform = string
type_synonym InstanceState = string

definition Second :: Duration where "Second = 1000000000"
definition Hour :: Duration where "Hour = 3600000000000"

definition PlatformLinux :: Platform where "PlatformLinux = ''linux''"
definition PlatformMacOS :: Platform where "PlatformMacOS = ''macos''"
definition PlatformWindows :: Platform where "PlatformWindows = ''windows''"

definition InstanceStateRequested :: InstanceState where
  "InstanceStateRequested = ''requested''"
definition InstanceStateProvisioning :: InstanceState where
  "InstanceStateProvisioning = ''provisioning''"
definition InstanceStateRunning :: InstanceState where
  "InstanceStateRunning = ''running''"
definition InstanceStateStopped :: InstanceState where
  "InstanceStateStopped = ''stopped''"
definition InstanceStateTerminated :: InstanceState where
  "InstanceStateTerminated = ''terminated''"
definition InstanceStateFailed :: InstanceState where
  "InstanceStateFailed = ''failed''"

text \<open>
  Errors are values. The sentinel errors of \<^verbatim>\<open>errors.go\<close> are constructors;
  \<open>ErrorString\<close> is an error that carries only a text (\<^verbatim>\<open>fmt.Errorf\<close> without \<^verbatim>\<open>%w\<close>, and
  the errors of the database and of the provider APIs); \<open>Wrapped s e\<close> is an
  \<^verbatim>\<open>fmt.Errorf\<close> with text \<open>s\<close> that wraps \<open>e\<close> through \<^verbatim>\<open>%w\<close>; \<open>ProvisionError\<close> is the struct
  of that name (instance id, platform, provider, wrapped error); \<open>Panic\<close> is a run-time
  panic.
\<close>

datatype error =
    ErrCloudDisabled
  | ErrProviderDisabled
  | ErrInstanceNotFound
  | ErrInstanceAlreadyExists
  | ErrInvalidPlatform
  | ErrNoAvailableHost
  | ErrProvisioningTimeout
  | ErrMaxInstancesReached
  | ErrInvalidState
  | ErrHostMinAllocation
  | ErrBillingNotAuthorized
  | ErrBillingQuotaExceeded
  | ErrBillingServiceUnavailable
  | ErrorString string
  | Wrapped string error
  | ProvisionError string Platform string error
  | Panic string

text \<open>
  \<^verbatim>\<open>CloudInstance\<close>, without the fields that none of the functions below reads
  (\<^verbatim>\<open>AgentNodeID\<close>, \<^verbatim>\<open>ConnectionInfo\<close>, \<^verbatim>\<open>Metadata\<close>, \<^verbatim>\<open>Tags\<close>, \<^verbatim>\<open>ErrorMessage\<close>,
  \<^verbatim>\<open>ProvisionedAt\<close>, \<^verbatim>\<open>TerminatedAt\<close>); likewise \<^verbatim>\<open>ProvisionRequest\<close> without \<^verbatim>\<open>Tags\<close> and
  \<^verbatim>\<open>Metadata\<close>, so that the provisioners below set no \<^verbatim>\<open>hanzo.ai/tag-\<close> tags or labels.
\<close>

record CloudInstance =
  ci_ID :: string
  ci_Platform :: Platform
  ci_State :: InstanceState
  ci_Provider :: string
  ci_InstanceID :: string
  ci_InstanceType :: string
  ci_ImageID :: string
  ci_Region :: string
  ci_BotPackage :: string
  ci_BotVersion :: string
  ci_PublicIP :: string
  ci_PrivateIP :: string
  ci_TeamID :: string
  ci_DedicatedHostID :: string
  ci_HourlyRateCents :: int
  ci_AccruedCostCents :: int
  ci_BillingTier :: string
  ci_RequestedAt :: Time
  ci_CreatedAt :: Time
  ci_UpdatedAt :: Time

record DedicatedHost =
  dh_ID :: string
  dh_HostID :: string
  dh_InstanceType :: string
  dh_State :: string
  dh_CurrentInstanceID :: string
  dh_AllocatedAt :: "Time option"
  dh_ReleasedAt :: "Time option"
  dh_MinAllocation :: Duration
  dh_CreatedAt :: Time
  dh_UpdatedAt :: Time

record ProvisionRequest =
  req_Platform :: Platform
  req_BotPackage :: string
  req_BotVersion :: string
  req_InstanceType :: string
  req_TeamID :: string

record InstanceFilters =
  flt_Platform :: "Platform option"
  flt_State :: "InstanceState option"
  flt_TeamID :: "string option"
  flt_Provider :: "string option"
  flt_Limit :: int
  flt_Offset :: int

text \<open>
  The payload of an event is JSON; the model keeps what was marshalled: nothing, a map of
  strings, or a \<^verbatim>\<open>CloudInstance\<close>.
\<close>

datatype EventData = JSONMap "(string \<times> string) list" | JSONInstance CloudInstance

record CloudEvent =
  ev_ID :: string
  ev_Type :: string
  ev_InstanceID :: string
  ev_Timestamp :: Time
  ev_Data :: "EventData option"

record BillingAuth =
  Authorized :: bool
  Tier :: string
  HourlyCents :: int
  Reason :: string
  BillingAccount :: string

text \<open>\<^verbatim>\<open>CloudConfig\<close> with its nested structs flattened; only the options read below.\<close>

record CloudConfig =
  cfg_Enabled :: bool
  cfg_AWS_Enabled :: bool
  cfg_MinHostAllocation :: Duration
  cfg_IdleHostRelease :: Duration
  cfg_Billing_Enabled :: bool
  cfg_Billing_ServiceURL :: string
  cfg_MaxInstancesPerTeam :: int
  cfg_ProvisioningTimeout :: Duration
  cfg_MonitorInterval :: Duration

text \<open>\<^verbatim>\<open>Defaults\<close> fills the options that are zero.\<close>

definition Defaults :: "CloudConfig \<Rightarrow> CloudConfig" where
  "Defaults c =
     c\<lparr>cfg_MaxInstancesPerTeam :=
         (if cfg_MaxInstancesPerTeam c = 0 then 10 else cfg_MaxInstancesPerTeam c),
       cfg_ProvisioningTimeout :=
         (if cfg_ProvisioningTimeout c = 0 then 600 * Second else cfg_ProvisioningTimeout c),
       cfg_MonitorInterval :=
         (if cfg_MonitorInterval c = 0 then 30 * Second else cfg_MonitorInterval c),
       cfg_MinHostAllocation :=
         (if cfg_MinHostAllocation c = 0 then 24 * Hour else cfg_MinHostAllocation c),
       cfg_IdleHostRelease :=
         (if cfg_IdleHostRelease c = 0 then 25 * Hour else cfg_IdleHostRelease c)\<rparr>"

section \<open>EventBus\<close>

text \<open>
  The ring buffer is the slice \<^verbatim>\<open>buffer\<close>; each subscriber channel (capacity 32) is
  modelled by the list of events it currently holds, keyed by subscription id.
\<close>

record EventBus =
  subscribers :: "(string \<times> CloudEvent list) list"
  buffer :: "CloudEvent list"
  bufferSize :: int

definition NewEventBus :: "int \<Rightarrow> EventBus" where
  "NewEventBus n =
     \<lparr>subscribers = [], buffer = [], bufferSize = (if n \<le> 0 then 100 else n)\<rparr>"

text \<open>
  The first two statements of \<^verbatim>\<open>Publish\<close>: an empty id is replaced by a fresh UUID and a
  zero timestamp by the current time. \<open>uuid\<close> and \<open>now\<close> are what \<^verbatim>\<open>uuid.New()\<close> and
  \<^verbatim>\<open>time.Now()\<close> return at that call.
\<close>

definition stamp :: "CloudEvent \<Rightarrow> string \<Rightarrow> Time \<Rightarrow> CloudEvent" where
  "stamp event uuid now =
     (let e1 = (if ev_ID event = [] then event\<lparr>ev_ID := uuid\<rparr> else event)
      in (if ev_Timestamp e1 = 0 then e1\<lparr>ev_Timestamp := now\<rparr> else e1))"

text \<open>
  \<^verbatim>\<open>Publish\<close>: when the buffer has reached \<^verbatim>\<open>bufferSize\<close> the oldest entry is cut off
  (\<^verbatim>\<open>buffer[1:]\<close>), then the event is appended; each subscriber channel takes the event
  unless it is full (the \<^verbatim>\<open>select\<close> with \<^verbatim>\<open>default\<close>). \<^verbatim>\<open>NewEventBus\<close> makes
  \<^verbatim>\<open>bufferSize\<close> positive, so the buffer that is cut is never empty.
\<close>

definition Publish :: "EventBus \<Rightarrow> CloudEvent \<Rightarrow> string \<Rightarrow> Time \<Rightarrow> EventBus" where
  "Publish eb event uuid now =
     (let ev = stamp event uuid now;
          buf = (if int (length (buffer eb)) \<ge> bufferSize eb
                 then drop 1 (buffer eb) else buffer eb)
      in eb\<lparr>buffer := buf @ [ev],
            subscribers :=
              map (\<lambda>(k, ch). (k, if length ch < 32 then ch @ [ev] else ch))
                (subscribers eb)\<rparr>)"

text \<open>
  \<^verbatim>\<open>Subscribe\<close> registers an empty channel under a fresh UUID, \<^verbatim>\<open>Unsubscribe\<close> closes and
  removes it.
\<close>

definition Subscribe :: "EventBus \<Rightarrow> string \<Rightarrow> string \<times> EventBus" where
  "Subscribe eb uuid = (uuid, eb\<lparr>subscribers := AList.update uuid [] (subscribers eb)\<rparr>)"

definition Unsubscribe :: "EventBus \<Rightarrow> string \<Rightarrow> EventBus" where
  "Unsubscribe eb ident = eb\<lparr>subscribers := AList.delete ident (subscribers eb)\<rparr>"

text \<open>\<^verbatim>\<open>Recent\<close>: a limit that is not positive or exceeds the buffer stands for the whole buffer.\<close>

definition Recent :: "EventBus \<Rightarrow> int \<Rightarrow> CloudEvent list" where
  "Recent eb limit =
     (let n = int (length (buffer eb));
          lim = (if limit \<le> 0 \<or> limit > n then n else limit);
          start = n - lim
      in drop (nat start) (buffer eb))"

definition EventInstanceRequested :: string where
  "EventInstanceRequested = ''instance.requested''"
definition EventInstanceProvisioning :: string where
  "EventInstanceProvisioning = ''instance.provisioning''"
definition EventInstanceRunning :: string where
  "EventInstanceRunning = ''instance.running''"
definition EventInstanceStopped :: string where
  "EventInstanceStopped = ''instance.stopped''"
definition EventInstanceTerminated :: string where
  "EventInstanceTerminated = ''instance.terminated''"
definition EventInstanceFailed :: string where
  "EventInstanceFailed = ''instance.failed''"
definition EventHostReleased :: string where
  "EventHostReleased = ''host.released''"

text \<open>A run of \<^verbatim>\<open>Publish\<close> calls, each with the UUID and clock reading of its call.\<close>

fun publish_all :: "EventBus \<Rightarrow> (CloudEvent \<times> string \<times> Time) list \<Rightarrow> EventBus" where
  "publish_all eb [] = eb"
| "publish_all eb ((e, uuid, now) # ps) = publish_all (Publish eb e uuid now) ps"

definition stamped :: "(CloudEvent \<times> string \<times> Time) list \<Rightarrow> CloudEvent list" where
  "stamped ps = map (\<lambda>(e, uuid, now). stamp e uuid now) ps"

section \<open>Store (internal/storage, cloud instances and dedicated hosts)\<close>

text \<open>
  The two tables are lists of rows with the primary key \<^verbatim>\<open>id\<close>; a row is kept as the
  conversion from the gorm model returns it. A database call can fail: \<open>faults\<close> lists the
  outcome of the coming calls, \<open>Some msg\<close> for a call that fails with the error \<open>msg\<close>; once
  the list is used up every call succeeds. The columns \<^verbatim>\<open>created_at\<close> and \<^verbatim>\<open>updated_at\<close>, which
  gorm maintains by itself, keep the value of the record that was written.
\<close>

record Store =
  instances :: "CloudInstance list"
  hosts :: "DedicatedHost list"
  faults :: "string option list"

definition db_call :: "Store \<Rightarrow> string option \<times> Store" where
  "db_call s = (case faults s of [] \<Rightarrow> (None, s) | f # fs \<Rightarrow> (f, s\<lparr>faults := fs\<rparr>))"

text \<open>gorm's \<^verbatim>\<open>Save\<close>: the row with the same primary key is replaced, else the row is inserted.\<close>

fun upsert :: "('a \<Rightarrow> string) \<Rightarrow> 'a \<Rightarrow> 'a list \<Rightarrow> 'a list" where
  "upsert key x [] = [x]"
| "upsert key x (y # ys) = (if key y = key x then x # ys else y # upsert key x ys)"

definition CreateCloudInstance :: "CloudInstance \<Rightarrow> Store \<Rightarrow> error option \<times> Store" where
  "CreateCloudInstance inst s0 =
     (let (f, s) = db_call s0
      in case f of
           Some msg \<Rightarrow> (Some (Wrapped ''failed to create cloud instance'' (ErrorString msg)), s)
         | None \<Rightarrow>
             if ci_ID inst \<in> set (map ci_ID (instances s))
             then (Some (Wrapped ''failed to create cloud instance''
                          (ErrorString ''duplicate primary key'')), s)
             else (None, s\<lparr>instances := instances s @ [inst]\<rparr>))"

definition GetCloudInstance :: "string \<Rightarrow> Store \<Rightarrow> (error + CloudInstance) \<times> Store" where
  "GetCloudInstance ident s0 =
     (let (f, s) = db_call s0
      in case f of
           Some msg \<Rightarrow> (Inl (Wrapped ''failed to get cloud instance'' (ErrorString msg)), s)
         | None \<Rightarrow>
             (case find (\<lambda>i. ci_ID i = ident) (instances s) of
                None \<Rightarrow> (Inl (ErrorString (''cloud instance not found: '' @ ident)), s)
              | Some i \<Rightarrow> (Inr i, s)))"

definition UpdateCloudInstance :: "CloudInstance \<Rightarrow> Store \<Rightarrow> error option \<times> Store" where
  "UpdateCloudInstance inst s0 =
     (let (f, s) = db_call s0
      in case f of
           Some msg \<Rightarrow> (Some (Wrapped ''failed to update cloud instance'' (ErrorString msg)), s)
         | None \<Rightarrow> (None, s\<lparr>instances := upsert ci_ID inst (instances s)\<rparr>))"

definition matches :: "InstanceFilters \<Rightarrow> CloudInstance \<Rightarrow> bool" where
  "matches flt i \<longleftrightarrow>
     (case flt_Platform flt of None \<Rightarrow> True | Some p \<Rightarrow> ci_Platform i = p) \<and>
     (case flt_State flt of None \<Rightarrow> True | Some st \<Rightarrow> ci_State i = st) \<and>
     (case flt_TeamID flt of None \<Rightarrow> True | Some t \<Rightarrow> ci_TeamID i = t) \<and>
     (case flt_Provider flt of None \<Rightarrow> True | Some p \<Rightarrow> ci_Provider i = p)"

text \<open>
  \<^verbatim>\<open>ListCloudInstances\<close>: the filters, \<^verbatim>\<open>ORDER BY created_at DESC\<close> (rows of equal
  \<^verbatim>\<open>created_at\<close> are kept in table order), then \<^verbatim>\<open>OFFSET\<close> and \<^verbatim>\<open>LIMIT\<close> when positive.
\<close>

definition ListCloudInstances ::
  "InstanceFilters \<Rightarrow> Store \<Rightarrow> (error + CloudInstance list) \<times> Store" where
  "ListCloudInstances flt s0 =
     (let (f, s) = db_call s0
      in case f of
           Some msg \<Rightarrow> (Inl (Wrapped ''failed to list cloud instances'' (ErrorString msg)), s)
         | None \<Rightarrow>
             (let rows = sort_key (\<lambda>i. - ci_CreatedAt i) (filter (matches flt) (instances s));
                  rows1 = (if flt_Offset flt > 0 then drop (nat (flt_Offset flt)) rows else rows);
                  rows2 = (if flt_Limit flt > 0 then take (nat (flt_Limit flt)) rows1 else rows1)
              in (Inr rows2, s)))"

text \<open>
  \<^verbatim>\<open>CountCloudInstancesByTeam\<close>:
  \<^verbatim>\<open>WHERE team_id = ? AND state NOT IN ('terminated', 'failed')\<close>.
\<close>

definition CountCloudInstancesByTeam :: "string \<Rightarrow> Store \<Rightarrow> (error + int) \<times> Store" where
  "CountCloudInstancesByTeam teamID s0 =
     (let (f, s) = db_call s0
      in case f of
           Some msg \<Rightarrow> (Inl (Wrapped ''failed to count cloud instances'' (ErrorString msg)), s)
         | None \<Rightarrow>
             (Inr (int (length (filter
                     (\<lambda>i. ci_TeamID i = teamID \<and> ci_State i \<notin> {''terminated'', ''failed''})
                     (instances s)))), s))"

text \<open>
  \<^verbatim>\<open>dedicatedHostToModel\<close> stores \<^verbatim>\<open>MinAllocation\<close> as whole seconds
  (\<^verbatim>\<open>int64(h.MinAllocation / time.Second)\<close>, Go's division truncates toward zero) and
  \<^verbatim>\<open>modelToDedicatedHost\<close> multiplies back: a stored host has lost the fraction.
\<close>

definition host_row :: "DedicatedHost \<Rightarrow> DedicatedHost" where
  "host_row h = h\<lparr>dh_MinAllocation := (dh_MinAllocation h sdiv Second) * Second\<rparr>"

definition GetDedicatedHost :: "string \<Rightarrow> Store \<Rightarrow> (error + DedicatedHost) \<times> Store" where
  "GetDedicatedHost ident s0 =
     (let (f, s) = db_call s0
      in case f of
           Some msg \<Rightarrow> (Inl (Wrapped ''failed to get dedicated host'' (ErrorString msg)), s)
         | None \<Rightarrow>
             (case find (\<lambda>h. dh_ID h = ident) (hosts s) of
                None \<Rightarrow> (Inl (ErrorString (''dedicated host not found: '' @ ident)), s)
              | Some h \<Rightarrow> (Inr h, s)))"

definition UpdateDedicatedHost :: "DedicatedHost \<Rightarrow> Store \<Rightarrow> error option \<times> Store" where
  "UpdateDedicatedHost host s0 =
     (let (f, s) = db_call s0
      in case f of
           Some msg \<Rightarrow> (Some (Wrapped ''failed to update dedicated host'' (ErrorString msg)), s)
         | None \<Rightarrow> (None, s\<lparr>hosts := upsert dh_ID (host_row host) (hosts s)\<rparr>))"

definition ListDedicatedHosts :: "Store \<Rightarrow> (error + DedicatedHost list) \<times> Store" where
  "ListDedicatedHosts s0 =
     (let (f, s) = db_call s0
      in case f of
           Some msg \<Rightarrow> (Inl (Wrapped ''failed to list dedicated hosts'' (ErrorString msg)), s)
         | None \<Rightarrow> (Inr (hosts s), s))"

text \<open>
  \<^verbatim>\<open>GetAvailableDedicatedHost\<close>:
  \<^verbatim>\<open>WHERE state = 'available' AND current_instance_id = '' ORDER BY updated_at ASC\<close>, first row.
\<close>

definition GetAvailableDedicatedHost :: "Store \<Rightarrow> (error + DedicatedHost) \<times> Store" where
  "GetAvailableDedicatedHost s0 =
     (let (f, s) = db_call s0
      in case f of
           Some msg \<Rightarrow> (Inl (Wrapped ''failed to get available host'' (ErrorString msg)), s)
         | None \<Rightarrow>
             (case sort_key dh_UpdatedAt
                     (filter (\<lambda>h. dh_State h = ''available'' \<and> dh_CurrentInstanceID h = [])
                        (hosts s)) of
                [] \<Rightarrow> (Inl (ErrorString ''no available dedicated host''), s)
              | h # _ \<Rightarrow> (Inr h, s)))"

section \<open>The world the control plane runs in\<close>

text \<open>
  Kubernetes, for the namespace of the provisioner: the pods, and the outcome of the coming
  API calls (\<open>Some msg\<close> for a call that fails).
\<close>

record Pod =
  pod_Name :: string
  pod_Labels :: "(string \<times> string) list"
  pod_Phase :: string
  pod_PodIP :: string

record K8sCluster =
  pods :: "Pod list"
  k8s_faults :: "string option list"

text \<open>EC2: the instances by reservation, and the outcome of the coming API calls.\<close>

record Ec2Instance =
  ec2_InstanceId :: string
  ec2_InstanceType :: string
  ec2_StateName :: string
  ec2_PrivateIpAddress :: string
  ec2_PublicIpAddress :: string
  ec2_Tags :: "(string \<times> string) list"

record EC2 =
  reservations :: "Ec2Instance list list"
  ec2_faults :: "string option list"

text \<open>
  A trace of the calls the manager and the monitor make to the billing authorizer and to
  the provisioners; it is bookkeeping of the model, so that ``no call was made'' can be
  stated.
\<close>

datatype Call =
    CallAuthorizeProvisioning string Platform string
  | CallReportUsage string Platform rat int
  | CallCreateInstance Platform
  | CallGetInstance string
  | CallStartInstance string
  | CallStopInstance string
  | CallTerminateInstance string

text \<open>
  \<open>clock w k\<close> is the \<open>k\<close>-th reading of \<^verbatim>\<open>time.Now()\<close> and \<open>uuids w k\<close> the \<open>k\<close>-th result
  of \<^verbatim>\<open>uuid.New()\<close>; \<open>reads\<close> and \<open>drawn\<close> count the readings taken so far.
\<close>

record World =
  store :: Store
  bus :: EventBus
  k8s :: K8sCluster
  ec2 :: EC2
  calls :: "Call list"
  clock :: "nat \<Rightarrow> Time"
  reads :: nat
  uuids :: "nat \<Rightarrow> string"
  drawn :: nat

definition time_Now :: "World \<Rightarrow> Time \<times> World" where
  "time_Now w = (clock w (reads w), w\<lparr>reads := Suc (reads w)\<rparr>)"

definition uuid_New :: "World \<Rightarrow> string \<times> World" where
  "uuid_New w = (uuids w (drawn w), w\<lparr>drawn := Suc (drawn w)\<rparr>)"

definition called :: "Call \<Rightarrow> World \<Rightarrow> World" where
  "called c w = w\<lparr>calls := calls w @ [c]\<rparr>"

text \<open>
  \<^verbatim>\<open>EmitInstanceEvent\<close> builds the event with an empty id and the current time and
  publishes it; \<^verbatim>\<open>Publish\<close> then draws the UUID, and reads the clock again only if the
  timestamp is the zero time.
\<close>

definition EmitInstanceEvent :: "string \<Rightarrow> string \<Rightarrow> EventData option \<Rightarrow> World \<Rightarrow> World" where
  "EmitInstanceEvent eventType instanceID data w =
     (let (now, w1) = time_Now w;
          (uuid, w2) = uuid_New w1;
          (now2, w3) = (if now = 0 then time_Now w2 else (now, w2))
      in w3\<lparr>bus := Publish (bus w3)
                 \<lparr>ev_ID = [], ev_Type = eventType, ev_InstanceID = instanceID,
                  ev_Timestamp = now, ev_Data = data\<rparr> uuid now2\<rparr>)"

section \<open>Billing\<close>

text \<open>
  The two implementations of \<^verbatim>\<open>BillingAuthorizer\<close>. What the remote billing service
  answers to an authorization request (an error when it is unreachable or its answer does
  not decode) is the function the HTTP client carries.
\<close>

datatype BillingAuthorizer =
    HTTPBillingClient "string \<Rightarrow> Platform \<Rightarrow> string \<Rightarrow> error + BillingAuth"
  | NoopBillingClient

definition platformHourlyCents :: "Platform \<Rightarrow> int" where
  "platformHourlyCents p =
     (if p = PlatformMacOS then 120
      else if p = PlatformWindows then 10
      else if p = PlatformLinux then 1
      else 10)"

fun AuthorizeProvisioning ::
  "BillingAuthorizer \<Rightarrow> string \<Rightarrow> Platform \<Rightarrow> string \<Rightarrow> error + BillingAuth" where
  "AuthorizeProvisioning (HTTPBillingClient remote) teamID platform instanceType =
     remote teamID platform instanceType"
| "AuthorizeProvisioning NoopBillingClient teamID platform instanceType =
     Inr \<lparr>Authorized = True, Tier = ''unlimited'', HourlyCents = platformHourlyCents platform,
          Reason = [], BillingAccount = []\<rparr>"

text \<open>\<^verbatim>\<open>ReportUsage\<close> returns nil in both implementations (the HTTP client only logs).\<close>

definition ReportUsage ::
  "BillingAuthorizer \<Rightarrow> string \<Rightarrow> Platform \<Rightarrow> rat \<Rightarrow> int \<Rightarrow> error option" where
  "ReportUsage b instanceID platform hours hourlyCents = None"

section \<open>CloudProvisioner and CloudManager\<close>

text \<open>The interface \<^verbatim>\<open>CloudProvisioner\<close>: a record of its methods, each acting on the world.\<close>

record CloudProvisioner =
  ProviderName :: string
  prov_CreateInstance :: "ProvisionRequest \<Rightarrow> World \<Rightarrow> (error + CloudInstance) \<times> World"
  prov_GetInstance :: "string \<Rightarrow> World \<Rightarrow> (error + CloudInstance) \<times> World"
  prov_StartInstance :: "string \<Rightarrow> World \<Rightarrow> error option \<times> World"
  prov_StopInstance :: "string \<Rightarrow> World \<Rightarrow> error option \<times> World"
  prov_TerminateInstance :: "string \<Rightarrow> World \<Rightarrow> error option \<times> World"

text \<open>
  \<^verbatim>\<open>CloudManager\<close>. Its store and event bus are those of the world; \<open>has_store\<close> is
  \<^verbatim>\<open>m.store != nil\<close>. The map of provisioners is an association list with distinct keys;
  where the code ranges over the map, the list order stands for Go's unspecified order.
\<close>

record CloudManager =
  config :: CloudConfig
  has_store :: bool
  provisioners :: "(Platform \<times> CloudProvisioner) list"
  billing :: BillingAuthorizer

definition NewCloudManager ::
  "CloudConfig \<Rightarrow> bool \<Rightarrow> (string \<Rightarrow> Platform \<Rightarrow> string \<Rightarrow> error + BillingAuth) \<Rightarrow> CloudManager" where
  "NewCloudManager cfg st remote =
     \<lparr>config = cfg, has_store = st, provisioners = [],
      billing = (if cfg_Billing_Enabled cfg \<and> cfg_Billing_ServiceURL cfg \<noteq> []
                 then HTTPBillingClient remote else NoopBillingClient)\<rparr>"

definition RegisterProvisioner ::
  "CloudManager \<Rightarrow> Platform list \<Rightarrow> CloudProvisioner \<Rightarrow> CloudManager" where
  "RegisterProvisioner m platforms p =
     m\<lparr>provisioners := fold (\<lambda>platform ps. AList.update platform p ps) platforms (provisioners m)\<rparr>"

definition getProvisioner :: "CloudManager \<Rightarrow> Platform \<Rightarrow> error + CloudProvisioner" where
  "getProvisioner m platform =
     (case map_of (provisioners m) platform of
        None \<Rightarrow> Inl (Wrapped (''no provisioner for platform '' @ platform) ErrInvalidPlatform)
      | Some prov \<Rightarrow> Inr prov)"

text \<open>The team limit of \<^verbatim>\<open>CreateInstance\<close>: an error of the count is not a rejection.\<close>

definition team_limit_reached :: "CloudManager \<Rightarrow> ProvisionRequest \<Rightarrow> World \<Rightarrow> bool \<times> World" where
  "team_limit_reached m req w =
     (if req_TeamID req \<noteq> [] \<and> has_store m
      then (let (r, s) = CountCloudInstancesByTeam (req_TeamID req) (store w)
            in (case r of
                  Inr count \<Rightarrow> count \<ge> cfg_MaxInstancesPerTeam (config m)
                | Inl err \<Rightarrow> False,
                w\<lparr>store := s\<rparr>))
      else (False, w))"

text \<open>\<^verbatim>\<open>CreateInstance\<close> from the billing authorization on.\<close>

definition authorize_and_dispatch ::
  "CloudManager \<Rightarrow> ProvisionRequest \<Rightarrow> World \<Rightarrow> (error + CloudInstance) \<times> World" where
  "authorize_and_dispatch m req w1 =
     (let w2 = called (CallAuthorizeProvisioning (req_TeamID req) (req_Platform req)
                        (req_InstanceType req)) w1
      in case AuthorizeProvisioning (billing m) (req_TeamID req) (req_Platform req)
                (req_InstanceType req) of
           Inl err \<Rightarrow> (Inl ErrBillingServiceUnavailable, w2)
         | Inr auth \<Rightarrow>
             if \<not> Authorized auth
             then (Inl (Wrapped (Reason auth) ErrBillingNotAuthorized), w2)
             else
               (case getProvisioner m (req_Platform req) of
                  Inl err \<Rightarrow> (Inl err, w2)
                | Inr prov \<Rightarrow>
                    let w3 = EmitInstanceEvent EventInstanceRequested []
                               (Some (JSONMap
                                  [(''platform'', req_Platform req),
                                   (''bot_package'', req_BotPackage req),
                                   (''team_id'', req_TeamID req)])) w2;
                        (r, w4) = prov_CreateInstance prov req
                                    (called (CallCreateInstance (req_Platform req)) w3)
                    in (case r of
                          Inl err \<Rightarrow> (Inl err, w4)
                        | Inr inst0 \<Rightarrow>
                            let inst = inst0\<lparr>ci_HourlyRateCents := HourlyCents auth,
                                             ci_BillingTier := Tier auth\<rparr>;
                                w5 = (if has_store m
                                      then w4\<lparr>store :=
                                             snd (CreateCloudInstance inst (store w4))\<rparr>
                                      else w4);
                                w6 = EmitInstanceEvent EventInstanceProvisioning
                                       (ci_ID inst) (Some (JSONInstance inst)) w5
                            in (Inr inst, w6))))"

definition CreateInstance ::
  "CloudManager \<Rightarrow> ProvisionRequest \<Rightarrow> World \<Rightarrow> (error + CloudInstance) \<times> World" where
  "CreateInstance m req w =
     (if \<not> cfg_Enabled (config m) then (Inl ErrCloudDisabled, w)
      else
        let (reached, w1) = team_limit_reached m req w
        in if reached then (Inl ErrMaxInstancesReached, w1)
           else authorize_and_dispatch m req w1)"

fun scan_provisioners ::
  "CloudProvisioner list \<Rightarrow> string \<Rightarrow> World \<Rightarrow> (error + CloudInstance) \<times> World" where
  "scan_provisioners [] instanceID w = (Inl ErrInstanceNotFound, w)"
| "scan_provisioners (prov # ps) instanceID w =
     (let (r, w1) = prov_GetInstance prov instanceID (called (CallGetInstance instanceID) w)
      in case r of
           Inr inst \<Rightarrow> (Inr inst, w1)
         | Inl err \<Rightarrow> scan_provisioners ps instanceID w1)"

definition GetInstance ::
  "CloudManager \<Rightarrow> string \<Rightarrow> World \<Rightarrow> (error + CloudInstance) \<times> World" where
  "GetInstance m instanceID w =
     (if \<not> cfg_Enabled (config m) then (Inl ErrCloudDisabled, w)
      else
        let (r, w1) = (if has_store m
                       then (let (r, s) = GetCloudInstance instanceID (store w)
                             in (r, w\<lparr>store := s\<rparr>))
                       else (Inl ErrInstanceNotFound, w))
        in case r of
             Inr inst \<Rightarrow> (Inr inst, w1)
           | Inl err \<Rightarrow> scan_provisioners (map snd (provisioners m)) instanceID w1)"

definition resolveInstance ::
  "CloudManager \<Rightarrow> string \<Rightarrow> World \<Rightarrow> (error + CloudInstance \<times> CloudProvisioner) \<times> World" where
  "resolveInstance m instanceID w =
     (if \<not> cfg_Enabled (config m) then (Inl ErrCloudDisabled, w)
      else
        let (r, w1) = GetInstance m instanceID w
        in case r of
             Inl err \<Rightarrow> (Inl err, w1)
           | Inr inst \<Rightarrow>
               (case getProvisioner m (ci_Platform inst) of
                  Inl err \<Rightarrow> (Inl err, w1)
                | Inr prov \<Rightarrow> (Inr (inst, prov), w1)))"

text \<open>The store update after a successful provisioner call; its error is discarded.\<close>

definition store_state :: "CloudManager \<Rightarrow> CloudInstance \<Rightarrow> InstanceState \<Rightarrow> World \<Rightarrow> World" where
  "store_state m inst st w =
     (if has_store m
      then w\<lparr>store := snd (UpdateCloudInstance (inst\<lparr>ci_State := st\<rparr>) (store w))\<rparr>
      else w)"

definition StartInstance :: "CloudManager \<Rightarrow> string \<Rightarrow> World \<Rightarrow> error option \<times> World" where
  "StartInstance m instanceID w =
     (let (r, w1) = resolveInstance m instanceID w
      in case r of
           Inl err \<Rightarrow> (Some err, w1)
         | Inr (inst, prov) \<Rightarrow>
             (let (e, w2) = prov_StartInstance prov instanceID
                              (called (CallStartInstance instanceID) w1)
              in case e of
                   Some err \<Rightarrow> (Some err, w2)
                 | None \<Rightarrow> (None, store_state m inst InstanceStateRunning w2)))"

definition StopInstance :: "CloudManager \<Rightarrow> string \<Rightarrow> World \<Rightarrow> error option \<times> World" where
  "StopInstance m instanceID w =
     (let (r, w1) = resolveInstance m instanceID w
      in case r of
           Inl err \<Rightarrow> (Some err, w1)
         | Inr (inst, prov) \<Rightarrow>
             (let (e, w2) = prov_StopInstance prov instanceID
                              (called (CallStopInstance instanceID) w1)
              in case e of
                   Some err \<Rightarrow> (Some err, w2)
                 | None \<Rightarrow>
                     (None, EmitInstanceEvent EventInstanceStopped instanceID None
                              (store_state m inst InstanceStateStopped w2))))"

definition TerminateInstance :: "CloudManager \<Rightarrow> string \<Rightarrow> World \<Rightarrow> error option \<times> World" where
  "TerminateInstance m instanceID w =
     (let (r, w1) = resolveInstance m instanceID w
      in case r of
           Inl err \<Rightarrow> (Some err, w1)
         | Inr (inst, prov) \<Rightarrow>
             (let (e, w2) = prov_TerminateInstance prov instanceID
                              (called (CallTerminateInstance instanceID) w1)
              in case e of
                   Some err \<Rightarrow> (Some err, w2)
                 | None \<Rightarrow>
                     (None, EmitInstanceEvent EventInstanceTerminated instanceID None
                              (store_state m inst InstanceStateTerminated w2))))"

section \<open>float64 arithmetic\<close>

text \<open>
  A \<^verbatim>\<open>float64\<close> value is a rational number; \<open>float64 x\<close> rounds \<open>x\<close> to the nearest binary64
  number, ties to even, as each IEEE 754 operation does with its exact result. Numbers
  below the normal range round on the subnormal grid; overflow to infinity is outside the
  model (it needs magnitudes of \<open>2 ^ 1024\<close>).
\<close>

definition pow2 :: "int \<Rightarrow> rat" where
  "pow2 k = (if k \<ge> 0 then 2 ^ nat k else 1 / 2 ^ nat (- k))"

definition round_half_even :: "rat \<Rightarrow> int" where
  "round_half_even x =
     (let f = \<lfloor>x\<rfloor>; d = x - of_int f
      in if d < 1 / 2 then f
         else if d > 1 / 2 then f + 1
         else (if even f then f else f + 1))"

text \<open>The exponent \<open>e\<close> with \<open>2 ^ e \<le> \<bar>x\<bar> < 2 ^ (e + 1)\<close>, for \<open>x \<noteq> 0\<close>.\<close>

definition ilog2 :: "rat \<Rightarrow> int" where
  "ilog2 x =
     (let (p, q) = quotient_of \<bar>x\<bar>;
          e0 = bitlen p - bitlen q
      in if pow2 e0 \<le> \<bar>x\<bar> then e0 else e0 - 1)"

definition float64 :: "rat \<Rightarrow> rat" where
  "float64 x =
     (if x = 0 then 0
      else let e = max (ilog2 x) (- 1022); q = pow2 (e - 52)
           in of_int (round_half_even (x / q)) * q)"

text \<open>
  \<^verbatim>\<open>Duration.Hours\<close> of the Go library:
  \<^verbatim>\<open>hour := d / Hour; nsec := d % Hour; return float64(hour) + float64(nsec)/(60*60*1e9)\<close>.
\<close>

definition Hours :: "Duration \<Rightarrow> rat" where
  "Hours d =
     (let hour = d sdiv Hour; nsec = d smod Hour
      in float64 (float64 (of_int hour) + float64 (float64 (of_int nsec) / 3600000000000)))"

text \<open>
  Go's \<^verbatim>\<open>int\<close> has 64 bits (on the 64-bit platforms the control plane is built for):
  \<open>in_int64\<close> is its range and \<open>wrap64\<close> the value an integer operation leaves when the
  exact result is outside.
\<close>

definition in_int64 :: "int \<Rightarrow> bool" where
  "in_int64 n \<longleftrightarrow> - (2 ^ 63) \<le> n \<and> n < 2 ^ 63"

definition wrap64 :: "int \<Rightarrow> int" where
  "wrap64 n = (n + 2 ^ 63) mod 2 ^ 64 - 2 ^ 63"

text \<open>Discarding the fraction of a number (toward zero).\<close>

definition trunc :: "rat \<Rightarrow> int" where
  "trunc x = (if x \<ge> 0 then \<lfloor>x\<rfloor> else \<lceil>x\<rceil>)"

text \<open>
  The conversion \<^verbatim>\<open>int(f)\<close> of a \<^verbatim>\<open>float64\<close> discards the fraction when the result is an
  \<^verbatim>\<open>int\<close>. Otherwise Go leaves the result to the implementation; the model takes that of
  amd64, the smallest \<^verbatim>\<open>int\<close>.
\<close>

definition go_int :: "rat \<Rightarrow> int" where
  "go_int x = (let t = trunc x in if in_int64 t then t else - (2 ^ 63))"

section \<open>CloudInstanceMonitor\<close>

record CloudInstanceMonitor =
  mon_manager :: CloudManager
  mon_config :: CloudConfig

text \<open>
  The cost of one interval in \<^verbatim>\<open>accrueUsageCosts\<close>:
  \<^verbatim>\<open>int(float64(inst.HourlyRateCents) * intervalHours)\<close>, raised to 1 when below. The loop
  adds it with \<^verbatim>\<open>+=\<close> on \<^verbatim>\<open>int\<close>, which wraps around.
\<close>

definition costCents :: "int \<Rightarrow> rat \<Rightarrow> int" where
  "costCents hourlyRateCents intervalHours =
     (let c = go_int (float64 (float64 (of_int hourlyRateCents) * intervalHours))
      in if c < 1 then 1 else c)"

fun accrue_loop :: "BillingAuthorizer \<Rightarrow> rat \<Rightarrow> CloudInstance list \<Rightarrow> World \<Rightarrow> World" where
  "accrue_loop b intervalHours [] w = w"
| "accrue_loop b intervalHours (inst # rest) w =
     (if ci_HourlyRateCents inst \<le> 0 then accrue_loop b intervalHours rest w
      else
        let inst1 = inst\<lparr>ci_AccruedCostCents :=
                      wrap64 (ci_AccruedCostCents inst
                              + costCents (ci_HourlyRateCents inst) intervalHours)\<rparr>;
            (e, s) = UpdateCloudInstance inst1 (store w);
            w1 = w\<lparr>store := s\<rparr>
        in case e of
             Some err \<Rightarrow> accrue_loop b intervalHours rest w1
           | None \<Rightarrow>
               accrue_loop b intervalHours rest
                 (called (CallReportUsage (ci_ID inst1) (ci_Platform inst1) intervalHours
                           (ci_HourlyRateCents inst1)) w1))"

definition accrueUsageCosts :: "CloudInstanceMonitor \<Rightarrow> World \<Rightarrow> World" where
  "accrueUsageCosts m w =
     (let (r, s) = ListCloudInstances
                     \<lparr>flt_Platform = None, flt_State = Some InstanceStateRunning,
                      flt_TeamID = None, flt_Provider = None, flt_Limit = 0, flt_Offset = 0\<rparr>
                     (store w);
          w1 = w\<lparr>store := s\<rparr>
      in case r of
           Inl err \<Rightarrow> w1
         | Inr insts \<Rightarrow>
             accrue_loop (billing (mon_manager m)) (Hours (cfg_MonitorInterval (mon_config m)))
               insts w1)"

fun release_loop :: "CloudInstanceMonitor \<Rightarrow> DedicatedHost list \<Rightarrow> World \<Rightarrow> World" where
  "release_loop m [] w = w"
| "release_loop m (host # rest) w =
     (if dh_State host \<noteq> ''allocated'' \<or> dh_CurrentInstanceID host \<noteq> []
      then release_loop m rest w
      else
        case dh_AllocatedAt host of
          None \<Rightarrow> release_loop m rest w
        | Some idleSince \<Rightarrow>
            let (t, w1) = time_Now w
            in if t - idleSince > cfg_IdleHostRelease (mon_config m)
               then
                 let (now, w2) = time_Now w1;
                     host1 = host\<lparr>dh_State := ''available'', dh_ReleasedAt := Some now\<rparr>;
                     (e, s) = UpdateDedicatedHost host1 (store w2);
                     w3 = w2\<lparr>store := s\<rparr>
                 in case e of
                      Some err \<Rightarrow> release_loop m rest w3
                    | None \<Rightarrow>
                        release_loop m rest
                          (EmitInstanceEvent EventHostReleased (dh_HostID host1) None w3)
               else release_loop m rest w1)"

definition releaseIdleHosts :: "CloudInstanceMonitor \<Rightarrow> World \<Rightarrow> World" where
  "releaseIdleHosts m w =
     (if \<not> cfg_AWS_Enabled (mon_config m) then w
      else
        let (r, s) = ListDedicatedHosts (store w);
            w1 = w\<lparr>store := s\<rparr>
        in case r of
             Inl err \<Rightarrow> w1
           | Inr hs \<Rightarrow> release_loop m hs w1)"

section \<open>The AWS provisioner\<close>

record AWSProvisioner =
  aws_has_store :: bool
  aws_Region :: string
  aws_MacOS_AMIID :: string
  aws_MacOS_InstanceType :: string
  aws_Windows_AMIID :: string
  aws_Windows_DefaultInstanceType :: string

definition api_call :: "string option list \<Rightarrow> string option \<times> string option list" where
  "api_call fs = (case fs of [] \<Rightarrow> (None, []) | f # rest \<Rightarrow> (f, rest))"

text \<open>
  The two filters \<^verbatim>\<open>describeInstanceByTag\<close> passes to \<^verbatim>\<open>DescribeInstances\<close>: a tag with
  one of the values, and an instance state name among the values. EC2 answers with the
  reservations that have a matching instance, each cut down to its matching instances.
\<close>

datatype Filter = TagFilter string "string list" | StateNameFilter "string list"

fun filter_ok :: "Filter \<Rightarrow> Ec2Instance \<Rightarrow> bool" where
  "filter_ok (TagFilter key vals) i = (\<exists>v \<in> set vals. (key, v) \<in> set (ec2_Tags i))"
| "filter_ok (StateNameFilter vals) i = (ec2_StateName i \<in> set vals)"

definition DescribeInstances ::
  "Filter list \<Rightarrow> World \<Rightarrow> (error + Ec2Instance list list) \<times> World" where
  "DescribeInstances flts w =
     (let (f, rest) = api_call (ec2_faults (ec2 w));
          w1 = w\<lparr>ec2 := (ec2 w)\<lparr>ec2_faults := rest\<rparr>\<rparr>
      in case f of
           Some msg \<Rightarrow> (Inl (ErrorString msg), w1)
         | None \<Rightarrow>
             (Inr (filter (\<lambda>res. res \<noteq> [])
                     (map (filter (\<lambda>i. list_all (\<lambda>flt. filter_ok flt i) flts))
                        (reservations (ec2 w1)))), w1))"

fun first_instance :: "Ec2Instance list list \<Rightarrow> error + Ec2Instance" where
  "first_instance [] = Inl ErrInstanceNotFound"
| "first_instance (res # rs) = (case res of i # _ \<Rightarrow> Inr i | [] \<Rightarrow> first_instance rs)"

definition describeInstanceByTag ::
  "AWSProvisioner \<Rightarrow> string \<Rightarrow> World \<Rightarrow> (error + Ec2Instance) \<times> World" where
  "describeInstanceByTag p instanceID w =
     (let (r, w1) = DescribeInstances
                      [TagFilter ''hanzo.ai/cloud-instance'' [instanceID],
                       StateNameFilter [''pending'', ''running'', ''stopping'', ''stopped'']] w
      in case r of
           Inl err \<Rightarrow> (Inl (Wrapped ''failed to describe instances'' err), w1)
         | Inr out \<Rightarrow> (first_instance out, w1))"

definition ec2StateToInstanceState :: "string \<Rightarrow> InstanceState" where
  "ec2StateToInstanceState st =
     (if st = ''pending'' then InstanceStateProvisioning
      else if st = ''running'' then InstanceStateRunning
      else if st = ''stopping'' \<or> st = ''stopped'' then InstanceStateStopped
      else if st = ''shutting-down'' \<or> st = ''terminated'' then InstanceStateTerminated
      else InstanceStateFailed)"

text \<open>A loop over the tags that assigns on each tag with the key: the last one stays.\<close>

definition tag_value :: "string \<Rightarrow> string \<Rightarrow> (string \<times> string) list \<Rightarrow> string" where
  "tag_value key dflt tags = fold (\<lambda>(k, v) acc. if k = key then v else acc) tags dflt"

definition aws_GetInstance ::
  "AWSProvisioner \<Rightarrow> string \<Rightarrow> World \<Rightarrow> (error + CloudInstance) \<times> World" where
  "aws_GetInstance p instanceID w =
     (let (r, w1) = describeInstanceByTag p instanceID w
      in case r of
           Inl err \<Rightarrow> (Inl err, w1)
         | Inr ec2Instance \<Rightarrow>
             (Inr \<lparr>ci_ID = instanceID,
                   ci_Platform = tag_value ''hanzo.ai/platform'' PlatformWindows
                                   (ec2_Tags ec2Instance),
                   ci_State = ec2StateToInstanceState (ec2_StateName ec2Instance),
                   ci_Provider = ''aws'',
                   ci_InstanceID = ec2_InstanceId ec2Instance,
                   ci_InstanceType = ec2_InstanceType ec2Instance,
                   ci_ImageID = [],
                   ci_Region = aws_Region p,
                   ci_BotPackage = tag_value ''hanzo.ai/bot-package'' [] (ec2_Tags ec2Instance),
                   ci_BotVersion = [],
                   ci_PublicIP = ec2_PublicIpAddress ec2Instance,
                   ci_PrivateIP = ec2_PrivateIpAddress ec2Instance,
                   ci_TeamID = tag_value ''hanzo.ai/team'' [] (ec2_Tags ec2Instance),
                   ci_DedicatedHostID =
                     tag_value ''hanzo.ai/dedicated-host'' [] (ec2_Tags ec2Instance),
                   ci_HourlyRateCents = 0,
                   ci_AccruedCostCents = 0,
                   ci_BillingTier = [],
                   ci_RequestedAt = 0,
                   ci_CreatedAt = 0,
                   ci_UpdatedAt = 0\<rparr>, w1))"

definition acquireDedicatedHost ::
  "AWSProvisioner \<Rightarrow> string \<Rightarrow> World \<Rightarrow> (error + DedicatedHost) \<times> World" where
  "acquireDedicatedHost p instanceID w =
     (if \<not> aws_has_store p
      then (Inl (ErrorString ''storage required for dedicated host management''), w)
      else
        let (r, s) = GetAvailableDedicatedHost (store w);
            w1 = w\<lparr>store := s\<rparr>
        in case r of
             Inl err \<Rightarrow> (Inl ErrNoAvailableHost, w1)
           | Inr host0 \<Rightarrow>
               let (now, w2) = time_Now w1;
                   host = host0\<lparr>dh_State := ''allocated'', dh_CurrentInstanceID := instanceID,
                                 dh_AllocatedAt := Some now\<rparr>;
                   (e, s2) = UpdateDedicatedHost host (store w2);
                   w3 = w2\<lparr>store := s2\<rparr>
               in case e of
                    Some err \<Rightarrow>
                      (Inl (Wrapped (''failed to allocate host '' @ dh_HostID host) err), w3)
                  | None \<Rightarrow> (Inr host, w3))"

definition releaseDedicatedHost ::
  "AWSProvisioner \<Rightarrow> string \<Rightarrow> World \<Rightarrow> error option \<times> World" where
  "releaseDedicatedHost p hostDBID w =
     (if \<not> aws_has_store p then (None, w)
      else
        let (r, s) = GetDedicatedHost hostDBID (store w);
            w1 = w\<lparr>store := s\<rparr>
        in case r of
             Inl err \<Rightarrow> (Some err, w1)
           | Inr host \<Rightarrow>
               let (early, w2) =
                     (case dh_AllocatedAt host of
                        None \<Rightarrow> (False, w1)
                      | Some allocatedAt \<Rightarrow>
                          (let (t, w') = time_Now w1
                           in (t < allocatedAt + dh_MinAllocation host, w')))
               in if early then (Some ErrHostMinAllocation, w2)
                  else
                    let (now, w3) = time_Now w2;
                        host1 = host\<lparr>dh_State := ''available'', dh_CurrentInstanceID := [],
                                     dh_ReleasedAt := Some now\<rparr>;
                        (e, s3) = UpdateDedicatedHost host1 (store w3)
                    in (e, w3\<lparr>store := s3\<rparr>))"

text \<open>
  \<^verbatim>\<open>RenderUserData\<close> knows three platforms; the text of the rendered script is not
  modelled.
\<close>

definition RenderUserData :: "string \<Rightarrow> error + string" where
  "RenderUserData platform =
     (if platform \<in> {''linux'', ''macos'', ''windows''} then Inr ''<userdata>''
      else Inl (ErrorString (''unsupported platform for userdata: '' @ platform)))"

text \<open>
  \<^verbatim>\<open>RunInstances\<close> for one instance: EC2 either fails or starts an instance in state
  \<^verbatim>\<open>pending\<close> with the tags of the request, under an id of its own choice.
\<close>

definition RunInstances ::
  "string \<Rightarrow> (string \<times> string) list \<Rightarrow> World \<Rightarrow> (error + string) \<times> World" where
  "RunInstances instanceType tags w =
     (let (f, rest) = api_call (ec2_faults (ec2 w));
          w1 = w\<lparr>ec2 := (ec2 w)\<lparr>ec2_faults := rest\<rparr>\<rparr>
      in case f of
           Some msg \<Rightarrow> (Inl (ErrorString msg), w1)
         | None \<Rightarrow>
             (let (u, w2) = uuid_New w1;
                  i = \<lparr>ec2_InstanceId = ''i-'' @ u, ec2_InstanceType = instanceType,
                       ec2_StateName = ''pending'', ec2_PrivateIpAddress = [],
                       ec2_PublicIpAddress = [], ec2_Tags = tags\<rparr>
              in (Inr (ec2_InstanceId i),
                  w2\<lparr>ec2 := (ec2 w2)\<lparr>reservations := reservations (ec2 w2) @ [[i]]\<rparr>\<rparr>)))"

definition launchMacOSInstance ::
  "AWSProvisioner \<Rightarrow> ProvisionRequest \<Rightarrow> string \<Rightarrow> World \<Rightarrow> (error + CloudInstance) \<times> World" where
  "launchMacOSInstance p req instanceID w =
     (let (r, w1) = acquireDedicatedHost p instanceID w
      in case r of
           Inl err \<Rightarrow> (Inl err, w1)
         | Inr host \<Rightarrow>
             (case RenderUserData ''macos'' of
                Inl err \<Rightarrow> (Inl (Wrapped ''failed to render macOS userdata'' err), w1)
              | Inr userData \<Rightarrow>
                  if length instanceID < 8
                  then (Inl (Panic ''slice bounds out of range''), w1)
                  else
                    let tags = [(''Name'', ''hanzo-mac-bot-'' @ take 8 instanceID),
                                (''hanzo.ai/cloud-instance'', instanceID),
                                (''hanzo.ai/platform'', ''macos''),
                                (''hanzo.ai/team'', req_TeamID req),
                                (''hanzo.ai/bot-package'', req_BotPackage req),
                                (''hanzo.ai/dedicated-host'', dh_HostID host)];
                        (out, w2) = RunInstances (aws_MacOS_InstanceType p) tags w1
                    in case out of
                         Inl err \<Rightarrow>
                           (let (e, w3) = releaseDedicatedHost p (dh_ID host) w2
                            in (Inl (ProvisionError instanceID PlatformMacOS ''aws'' err), w3))
                       | Inr ec2ID \<Rightarrow>
                           let w3 = (if aws_has_store p
                                     then w2\<lparr>store :=
                                            snd (UpdateDedicatedHost
                                                   (host\<lparr>dh_CurrentInstanceID := instanceID,
                                                         dh_State := ''allocated''\<rparr>)
                                                   (store w2))\<rparr>
                                     else w2);
                               (now, w4) = time_Now w3
                           in (Inr \<lparr>ci_ID = instanceID,
                                    ci_Platform = PlatformMacOS,
                                    ci_State = InstanceStateProvisioning,
                                    ci_Provider = ''aws'',
                                    ci_InstanceID = ec2ID,
                                    ci_InstanceType = aws_MacOS_InstanceType p,
                                    ci_ImageID = aws_MacOS_AMIID p,
                                    ci_Region = aws_Region p,
                                    ci_BotPackage = req_BotPackage req,
                                    ci_BotVersion = req_BotVersion req,
                                    ci_PublicIP = [],
                                    ci_PrivateIP = [],
                                    ci_TeamID = req_TeamID req,
                                    ci_DedicatedHostID = dh_HostID host,
                                    ci_HourlyRateCents = 0,
                                    ci_AccruedCostCents = 0,
                                    ci_BillingTier = [],
                                    ci_RequestedAt = now,
                                    ci_CreatedAt = now,
                                    ci_UpdatedAt = now\<rparr>, w4)))"

definition launchWindowsInstance ::
  "AWSProvisioner \<Rightarrow> ProvisionRequest \<Rightarrow> string \<Rightarrow> World \<Rightarrow> (error + CloudInstance) \<times> World" where
  "launchWindowsInstance p req instanceID w =
     (let instanceType = (if req_InstanceType req \<noteq> [] then req_InstanceType req
                          else aws_Windows_DefaultInstanceType p)
      in case RenderUserData ''windows'' of
           Inl err \<Rightarrow> (Inl (Wrapped ''failed to render Windows userdata'' err), w)
         | Inr userData \<Rightarrow>
             if length instanceID < 8
             then (Inl (Panic ''slice bounds out of range''), w)
             else
               let tags = [(''Name'', ''hanzo-bot-'' @ take 8 instanceID),
                           (''hanzo.ai/cloud-instance'', instanceID),
                           (''hanzo.ai/platform'', ''windows''),
                           (''hanzo.ai/team'', req_TeamID req),
                           (''hanzo.ai/bot-package'', req_BotPackage req)];
                   (out, w1) = RunInstances instanceType tags w
               in case out of
                    Inl err \<Rightarrow>
                      (Inl (ProvisionError instanceID PlatformWindows ''aws'' err), w1)
                  | Inr ec2ID \<Rightarrow>
                      let (now, w2) = time_Now w1
                      in (Inr \<lparr>ci_ID = instanceID,
                               ci_Platform = PlatformWindows,
                               ci_State = InstanceStateProvisioning,
                               ci_Provider = ''aws'',
                               ci_InstanceID = ec2ID,
                               ci_InstanceType = instanceType,
                               ci_ImageID = aws_Windows_AMIID p,
                               ci_Region = aws_Region p,
                               ci_BotPackage = req_BotPackage req,
                               ci_BotVersion = req_BotVersion req,
                               ci_PublicIP = [],
                               ci_PrivateIP = [],
                               ci_TeamID = req_TeamID req,
                               ci_DedicatedHostID = [],
                               ci_HourlyRateCents = 0,
                               ci_AccruedCostCents = 0,
                               ci_BillingTier = [],
                               ci_RequestedAt = now,
                               ci_CreatedAt = now,
                               ci_UpdatedAt = now\<rparr>, w2))"

definition aws_CreateInstance ::
  "AWSProvisioner \<Rightarrow> ProvisionRequest \<Rightarrow> World \<Rightarrow> (error + CloudInstance) \<times> World" where
  "aws_CreateInstance p req w =
     (let (instanceID, w1) = uuid_New w
      in if req_Platform req = PlatformWindows then launchWindowsInstance p req instanceID w1
         else if req_Platform req = PlatformMacOS then launchMacOSInstance p req instanceID w1
         else (Inl (ErrorString (''AWS provisioner does not support platform: ''
                                  @ req_Platform req)), w1))"

text \<open>
  \<^verbatim>\<open>StartInstances\<close>, \<^verbatim>\<open>StopInstances\<close> and \<^verbatim>\<open>TerminateInstances\<close> for one instance id:
  unless the call fails, EC2 moves the instance to the state given.
\<close>

definition ec2_change_state :: "string \<Rightarrow> string \<Rightarrow> World \<Rightarrow> error option \<times> World" where
  "ec2_change_state ec2ID st w =
     (let (f, rest) = api_call (ec2_faults (ec2 w));
          w1 = w\<lparr>ec2 := (ec2 w)\<lparr>ec2_faults := rest\<rparr>\<rparr>
      in case f of
           Some msg \<Rightarrow> (Some (ErrorString msg), w1)
         | None \<Rightarrow>
             (None,
              w1\<lparr>ec2 := (ec2 w1)\<lparr>reservations :=
                     map (map (\<lambda>i. if ec2_InstanceId i = ec2ID then i\<lparr>ec2_StateName := st\<rparr>
                                     else i))
                       (reservations (ec2 w1))\<rparr>\<rparr>))"

definition aws_StartInstance :: "AWSProvisioner \<Rightarrow> string \<Rightarrow> World \<Rightarrow> error option \<times> World" where
  "aws_StartInstance p instanceID w =
     (let (r, w1) = describeInstanceByTag p instanceID w
      in case r of
           Inl err \<Rightarrow> (Some err, w1)
         | Inr ec2Instance \<Rightarrow>
             (let ec2ID = ec2_InstanceId ec2Instance;
                  (e, w2) = ec2_change_state ec2ID ''pending'' w1
              in case e of
                   Some err \<Rightarrow> (Some (Wrapped (''failed to start instance '' @ ec2ID) err), w2)
                 | None \<Rightarrow> (None, w2)))"

definition aws_StopInstance :: "AWSProvisioner \<Rightarrow> string \<Rightarrow> World \<Rightarrow> error option \<times> World" where
  "aws_StopInstance p instanceID w =
     (let (r, w1) = describeInstanceByTag p instanceID w
      in case r of
           Inl err \<Rightarrow> (Some err, w1)
         | Inr ec2Instance \<Rightarrow>
             (let ec2ID = ec2_InstanceId ec2Instance;
                  (e, w2) = ec2_change_state ec2ID ''stopping'' w1
              in case e of
                   Some err \<Rightarrow> (Some (Wrapped (''failed to stop instance '' @ ec2ID) err), w2)
                 | None \<Rightarrow> (None, w2)))"

text \<open>
  The loop of \<^verbatim>\<open>TerminateInstance\<close> over the tags: for a \<^verbatim>\<open>hanzo.ai/dedicated-host\<close> tag
  the first host with that \<^verbatim>\<open>HostID\<close> is released; the errors of the listing and of the
  release are discarded.
\<close>

definition release_tagged_host :: "AWSProvisioner \<Rightarrow> string \<times> string \<Rightarrow> World \<Rightarrow> World" where
  "release_tagged_host p tag w =
     (if fst tag = ''hanzo.ai/dedicated-host'' \<and> aws_has_store p
      then
        let (r, s) = ListDedicatedHosts (store w);
            w1 = w\<lparr>store := s\<rparr>
        in case r of
             Inl err \<Rightarrow> w1
           | Inr hs \<Rightarrow>
               (case find (\<lambda>h. dh_HostID h = snd tag) hs of
                  None \<Rightarrow> w1
                | Some h \<Rightarrow> snd (releaseDedicatedHost p (dh_ID h) w1))
      else w)"

definition aws_TerminateInstance ::
  "AWSProvisioner \<Rightarrow> string \<Rightarrow> World \<Rightarrow> error option \<times> World" where
  "aws_TerminateInstance p instanceID w =
     (let (r, w1) = describeInstanceByTag p instanceID w
      in case r of
           Inl err \<Rightarrow> (Some err, w1)
         | Inr ec2Instance \<Rightarrow>
             (let ec2ID = ec2_InstanceId ec2Instance;
                  (e, w2) = ec2_change_state ec2ID ''shutting-down'' w1
              in case e of
                   Some err \<Rightarrow>
                     (Some (Wrapped (''failed to terminate instance '' @ ec2ID) err), w2)
                 | None \<Rightarrow> (None, fold (release_tagged_host p) (ec2_Tags ec2Instance) w2)))"

text \<open>The AWS provisioner as a \<^verbatim>\<open>CloudProvisioner\<close>.\<close>

definition AWSCloudProvisioner :: "AWSProvisioner \<Rightarrow> CloudProvisioner" where
  "AWSCloudProvisioner p =
     \<lparr>ProviderName = ''aws'',
      prov_CreateInstance = aws_CreateInstance p,
      prov_GetInstance = aws_GetInstance p,
      prov_StartInstance = aws_StartInstance p,
      prov_StopInstance = aws_StopInstance p,
      prov_TerminateInstance = aws_TerminateInstance p\<rparr>"

section \<open>The Kubernetes provisioner\<close>

record K8sProvisioner =
  k8s_DefaultImage :: string

text \<open>
  \<^verbatim>\<open>Pods(ns).List\<close> with the label selector \<^verbatim>\<open>key=value\<close>, \<^verbatim>\<open>Pods(ns).Create\<close> (pod names
  are unique in a namespace) and \<^verbatim>\<open>Pods(ns).Delete\<close> by name.
\<close>

definition k8s_call :: "World \<Rightarrow> string option \<times> World" where
  "k8s_call w =
     (let (f, rest) = api_call (k8s_faults (k8s w))
      in (f, w\<lparr>k8s := (k8s w)\<lparr>k8s_faults := rest\<rparr>\<rparr>))"

definition pods_List :: "string \<Rightarrow> string \<Rightarrow> World \<Rightarrow> (error + Pod list) \<times> World" where
  "pods_List key val w =
     (let (f, w1) = k8s_call w
      in case f of
           Some msg \<Rightarrow> (Inl (ErrorString msg), w1)
         | None \<Rightarrow> (Inr (filter (\<lambda>p. map_of (pod_Labels p) key = Some val) (pods (k8s w1))), w1))"

definition pods_Create :: "Pod \<Rightarrow> World \<Rightarrow> (error + Pod) \<times> World" where
  "pods_Create pod w =
     (let (f, w1) = k8s_call w
      in case f of
           Some msg \<Rightarrow> (Inl (ErrorString msg), w1)
         | None \<Rightarrow>
             if pod_Name pod \<in> set (map pod_Name (pods (k8s w1)))
             then (Inl (ErrorString (''pods '' @ pod_Name pod @ '' already exists'')), w1)
             else (Inr pod, w1\<lparr>k8s := (k8s w1)\<lparr>pods := pods (k8s w1) @ [pod]\<rparr>\<rparr>))"

definition pods_Delete :: "string \<Rightarrow> World \<Rightarrow> error option \<times> World" where
  "pods_Delete name w =
     (let (f, w1) = k8s_call w
      in case f of
           Some msg \<Rightarrow> (Some (ErrorString msg), w1)
         | None \<Rightarrow>
             if name \<in> set (map pod_Name (pods (k8s w1)))
             then (None, w1\<lparr>k8s := (k8s w1)\<lparr>pods :=
                                  filter (\<lambda>p. pod_Name p \<noteq> name) (pods (k8s w1))\<rparr>\<rparr>)
             else (Some (ErrorString (''pods '' @ name @ '' not found'')), w1))"

definition findPodByInstanceID ::
  "K8sProvisioner \<Rightarrow> string \<Rightarrow> World \<Rightarrow> (error + Pod) \<times> World" where
  "findPodByInstanceID p instanceID w =
     (let (r, w1) = pods_List ''hanzo.ai/cloud-instance'' instanceID w
      in case r of
           Inl err \<Rightarrow> (Inl (Wrapped ''failed to find pod'' err), w1)
         | Inr [] \<Rightarrow> (Inl ErrInstanceNotFound, w1)
         | Inr (pod # _) \<Rightarrow> (Inr pod, w1))"

definition podPhaseToState :: "string \<Rightarrow> InstanceState" where
  "podPhaseToState phase =
     (if phase = ''Pending'' then InstanceStateProvisioning
      else if phase = ''Running'' then InstanceStateRunning
      else if phase = ''Succeeded'' \<or> phase = ''Failed'' then InstanceStateTerminated
      else InstanceStateFailed)"

definition label :: "Pod \<Rightarrow> string \<Rightarrow> string" where
  "label pod key = (case map_of (pod_Labels pod) key of None \<Rightarrow> [] | Some v \<Rightarrow> v)"

definition k8s_CreateInstance ::
  "K8sProvisioner \<Rightarrow> ProvisionRequest \<Rightarrow> World \<Rightarrow> (error + CloudInstance) \<times> World" where
  "k8s_CreateInstance p req w =
     (let (instanceID, w1) = uuid_New w
      in if length instanceID < 8 then (Inl (Panic ''slice bounds out of range''), w1)
         else
           let podName = ''bot-'' @ take 8 instanceID;
               image = (if req_InstanceType req \<noteq> [] then req_InstanceType req
                        else k8s_DefaultImage p);
               pod = \<lparr>pod_Name = podName,
                      pod_Labels = [(''app'', ''hanzo-agent-bot''),
                                    (''hanzo.ai/cloud-instance'', instanceID),
                                    (''hanzo.ai/team'', req_TeamID req),
                                    (''hanzo.ai/bot-package'', req_BotPackage req)],
                      pod_Phase = ''Pending'', pod_PodIP = []\<rparr>;
               (r, w2) = pods_Create pod w1
           in case r of
                Inl err \<Rightarrow> (Inl (ProvisionError instanceID PlatformLinux ''k8s'' err), w2)
              | Inr created \<Rightarrow>
                  let (now, w3) = time_Now w2
                  in (Inr \<lparr>ci_ID = instanceID,
                           ci_Platform = PlatformLinux,
                           ci_State = InstanceStateProvisioning,
                           ci_Provider = ''k8s'',
                           ci_InstanceID = pod_Name created,
                           ci_InstanceType = image,
                           ci_ImageID = [],
                           ci_Region = [],
                           ci_BotPackage = req_BotPackage req,
                           ci_BotVersion = req_BotVersion req,
                           ci_PublicIP = [],
                           ci_PrivateIP = [],
                           ci_TeamID = req_TeamID req,
                           ci_DedicatedHostID = [],
                           ci_HourlyRateCents = 0,
                           ci_AccruedCostCents = 0,
                           ci_BillingTier = [],
                           ci_RequestedAt = now,
                           ci_CreatedAt = now,
                           ci_UpdatedAt = now\<rparr>, w3))"

definition k8s_GetInstance ::
  "K8sProvisioner \<Rightarrow> string \<Rightarrow> World \<Rightarrow> (error + CloudInstance) \<times> World" where
  "k8s_GetInstance p instanceID w =
     (let (r, w1) = findPodByInstanceID p instanceID w
      in case r of
           Inl err \<Rightarrow> (Inl err, w1)
         | Inr pod \<Rightarrow>
             (Inr \<lparr>ci_ID = instanceID,
                   ci_Platform = PlatformLinux,
                   ci_State = podPhaseToState (pod_Phase pod),
                   ci_Provider = ''k8s'',
                   ci_InstanceID = pod_Name pod,
                   ci_InstanceType = [],
                   ci_ImageID = [],
                   ci_Region = [],
                   ci_BotPackage = label pod ''hanzo.ai/bot-package'',
                   ci_BotVersion = [],
                   ci_PublicIP = [],
                   ci_PrivateIP = pod_PodIP pod,
                   ci_TeamID = label pod ''hanzo.ai/team'',
                   ci_DedicatedHostID = [],
                   ci_HourlyRateCents = 0,
                   ci_AccruedCostCents = 0,
                   ci_BillingTier = [],
                   ci_RequestedAt = 0,
                   ci_CreatedAt = 0,
                   ci_UpdatedAt = 0\<rparr>, w1))"

definition k8s_StartInstance :: "K8sProvisioner \<Rightarrow> string \<Rightarrow> World \<Rightarrow> error option \<times> World" where
  "k8s_StartInstance p instanceID w =
     (Some (ErrorString ''start not supported for K8s pods; create a new instance instead''), w)"

definition k8s_TerminateInstance ::
  "K8sProvisioner \<Rightarrow> string \<Rightarrow> World \<Rightarrow> error option \<times> World" where
  "k8s_TerminateInstance p instanceID w =
     (let (r, w1) = findPodByInstanceID p instanceID w
      in case r of
           Inl err \<Rightarrow> (Some err, w1)
         | Inr pod \<Rightarrow>
             (let (e, w2) = pods_Delete (pod_Name pod) w1
              in case e of
                   Some err \<Rightarrow> (Some (Wrapped (''failed to delete pod '' @ pod_Name pod) err), w2)
                 | None \<Rightarrow> (None, w2)))"

definition k8s_StopInstance :: "K8sProvisioner \<Rightarrow> string \<Rightarrow> World \<Rightarrow> error option \<times> World" where
  "k8s_StopInstance p instanceID w = k8s_TerminateInstance p instanceID w"

text \<open>The Kubernetes provisioner as a \<^verbatim>\<open>CloudProvisioner\<close>.\<close>

definition K8sCloudProvisioner :: "K8sProvisioner \<Rightarrow> CloudProvisioner" where
  "K8sCloudProvisioner p =
     \<lparr>ProviderName = ''k8s'',
      prov_CreateInstance = k8s_CreateInstance p,
      prov_GetInstance = k8s_GetInstance p,
      prov_StartInstance = k8s_StartInstance p,
      prov_StopInstance = k8s_StopInstance p,
      prov_TerminateInstance = k8s_TerminateInstance p\<rparr>"

section \<open>Invariants and sample data\<close>

text \<open>The invariant of the ring buffer: it never holds more than \<open>bufferSize\<close> events.\<close>

definition bus_ok :: "EventBus \<Rightarrow> bool" where
  "bus_ok eb \<longleftrightarrow> 1 \<le> bufferSize eb \<and> int (length (buffer eb)) \<le> bufferSize eb"

definition sample_clock :: "nat \<Rightarrow> Time" where
  "sample_clock k = 1000 + int k"

definition sample_uuids :: "nat \<Rightarrow> string" where
  "sample_uuids k = ''0a1b2c3d-'' @ replicate k (CHR ''x'')"

definition sample_world :: World where
  "sample_world =
     \<lparr>store = \<lparr>instances = [], hosts = [], faults = []\<rparr>,
      bus = NewEventBus 200,
      k8s = \<lparr>pods = [], k8s_faults = []\<rparr>,
      ec2 = \<lparr>reservations = [], ec2_faults = []\<rparr>,
      calls = [],
      clock = sample_clock, reads = 0,
      uuids = sample_uuids, drawn = 0\<rparr>"

definition sample_instance :: "string \<Rightarrow> Platform \<Rightarrow> InstanceState \<Rightarrow> string \<Rightarrow> int \<Rightarrow> CloudInstance" where
  "sample_instance ident platform st team rate =
     \<lparr>ci_ID = ident, ci_Platform = platform, ci_State = st, ci_Provider = ''aws'',
      ci_InstanceID = ''i-'' @ ident, ci_InstanceType = ''t3.large'', ci_ImageID = ''ami-1'',
      ci_Region = ''us-east-1'', ci_BotPackage = ''bot'', ci_BotVersion = [],
      ci_PublicIP = [], ci_PrivateIP = [], ci_TeamID = team, ci_DedicatedHostID = [],
      ci_HourlyRateCents = rate, ci_AccruedCostCents = 0, ci_BillingTier = ''pro'',
      ci_RequestedAt = 10, ci_CreatedAt = 10, ci_UpdatedAt = 10\<rparr>"

definition sample_config :: CloudConfig where
  "sample_config =
     Defaults \<lparr>cfg_Enabled = True, cfg_AWS_Enabled = True, cfg_MinHostAllocation = 0,
               cfg_IdleHostRelease = 0, cfg_Billing_Enabled = True,
               cfg_Billing_ServiceURL = ''https://billing'', cfg_MaxInstancesPerTeam = 2,
               cfg_ProvisioningTimeout = 0, cfg_MonitorInterval = 0\<rparr>"

definition sample_aws :: AWSProvisioner where
  "sample_aws =
     \<lparr>aws_has_store = True, aws_Region = ''us-east-1'', aws_MacOS_AMIID = ''ami-mac'',
      aws_MacOS_InstanceType = ''mac2.metal'', aws_Windows_AMIID = ''ami-win'',
      aws_Windows_DefaultInstanceType = ''t3.large''\<rparr>"

definition sample_request :: "Platform \<Rightarrow> string \<Rightarrow> ProvisionRequest" where
  "sample_request platform team =
     \<lparr>req_Platform = platform, req_BotPackage = ''bot'', req_BotVersion = [],
      req_InstanceType = [], req_TeamID = team\<rparr>"

definition sample_event :: "string \<Rightarrow> Time \<Rightarrow> CloudEvent" where
  "sample_event ident t =
     \<lparr>ev_ID = ident, ev_Type = EventInstanceRunning, ev_InstanceID = ''inst-1'',
      ev_Timestamp = t, ev_Data = None\<rparr>"

definition sample_pod :: Pod where
  "sample_pod =
     \<lparr>pod_Name = ''bot-0a1b2c3d'',
      pod_Labels = [(''app'', ''hanzo-agent-bot''), (''hanzo.ai/cloud-instance'', ''inst-1''),
                    (''hanzo.ai/team'', ''team-a'')],
      pod_Phase = ''Running'', pod_PodIP = ''10.0.0.7''\<rparr>"

definition sample_ec2_instance :: "string \<Rightarrow> string \<Rightarrow> string \<Rightarrow> Ec2Instance" where
  "sample_ec2_instance instanceID platform st =
     \<lparr>ec2_InstanceId = ''i-'' @ instanceID, ec2_InstanceType = ''t3.large'',
      ec2_StateName = st, ec2_PrivateIpAddress = ''10.0.0.9'', ec2_PublicIpAddress = [],
      ec2_Tags = [(''hanzo.ai/cloud-instance'', instanceID), (''hanzo.ai/platform'', platform),
                  (''hanzo.ai/team'', ''team-a'')]\<rparr>"

definition sample_remote :: "string \<Rightarrow> Platform \<Rightarrow> string \<Rightarrow> error + BillingAuth" where
  "sample_remote team platform instanceType =
     (if team = ''team-down'' then Inl (ErrorString ''billing service unreachable'')
      else Inr \<lparr>Authorized = True, Tier = ''pro'', HourlyCents = 7, Reason = [],
                BillingAccount = ''acct-1''\<rparr>)"

definition sample_manager :: CloudManager where
  "sample_manager =
     RegisterProvisioner
       (RegisterProvisioner (NewCloudManager sample_config True sample_remote)
          [PlatformLinux] (K8sCloudProvisioner \<lparr>k8s_DefaultImage = ''img''\<rparr>))
       [PlatformWindows, PlatformMacOS] (AWSCloudProvisioner sample_aws)"

text \<open>The instances that count against the limit of a team.\<close>

definition counts_for_team :: "string \<Rightarrow> CloudInstance \<Rightarrow> bool" where
  "counts_for_team teamID i \<longleftrightarrow>
     ci_TeamID i = teamID \<and> ci_State i \<noteq> InstanceStateTerminated \<and>
     ci_State i \<noteq> InstanceStateFailed"

definition sample_host :: "string \<Rightarrow> string \<Rightarrow> Time option \<Rightarrow> Duration \<Rightarrow> DedicatedHost" where
  "sample_host hostID st allocatedAt minAllocation =
     \<lparr>dh_ID = ''dh-'' @ hostID, dh_HostID = hostID, dh_InstanceType = ''mac2.metal'',
      dh_State = st, dh_CurrentInstanceID = [], dh_AllocatedAt = allocatedAt,
      dh_ReleasedAt = None, dh_MinAllocation = minAllocation, dh_CreatedAt = 5,
      dh_UpdatedAt = 5\<rparr>"

definition stopped_windows_world :: World where
  "stopped_windows_world =
     sample_world
       \<lparr>store := \<lparr>instances =
            [sample_instance ''inst-1'' PlatformWindows InstanceStateStopped ''team-a'' 10],
          hosts = [], faults = []\<rparr>,
        ec2 := \<lparr>reservations = [[sample_ec2_instance ''inst-1'' ''windows'' ''stopped'']],
                ec2_faults = []\<rparr>\<rparr>"

definition running_windows_world :: World where
  "running_windows_world =
     sample_world
       \<lparr>store := \<lparr>instances =
            [sample_instance ''inst-1'' PlatformWindows InstanceStateRunning ''team-a'' 10],
          hosts = [], faults = []\<rparr>,
        ec2 := \<lparr>reservations = [[sample_ec2_instance ''inst-1'' ''windows'' ''running'']],
                ec2_faults = []\<rparr>\<rparr>"

definition launch_failure_world :: "Duration \<Rightarrow> World" where
  "launch_failure_world minAllocation =
     sample_world
       \<lparr>store := \<lparr>instances = [],
                   hosts = [sample_host ''h-1'' ''available'' None minAllocation],
                   faults = []\<rparr>,
        ec2 := \<lparr>reservations = [], ec2_faults = [Some ''InsufficientInstanceCapacity'']\<rparr>\<rparr>"

text \<open>
  How a row of the hosts table can change when a host is released. By the allocator
  (\<^verbatim>\<open>releaseDedicatedHost\<close>): the host becomes available at a time \<open>r\<close> that lies at least
  \<^verbatim>\<open>MinAllocation\<close> after \<^verbatim>\<open>AllocatedAt\<close>, when that is set. By the monitor
  (\<^verbatim>\<open>releaseIdleHosts\<close>): an allocated host without instance becomes available at a time
  \<open>r\<close> more than the idle threshold after \<^verbatim>\<open>AllocatedAt\<close>.
\<close>

definition released_by_allocator :: "DedicatedHost \<Rightarrow> DedicatedHost \<Rightarrow> bool" where
  "released_by_allocator h h' \<longleftrightarrow>
     (\<exists>r. h' = host_row (h\<lparr>dh_State := ''available'', dh_CurrentInstanceID := [],
                            dh_ReleasedAt := Some r\<rparr>) \<and>
          (case dh_AllocatedAt h of None \<Rightarrow> True
           | Some a \<Rightarrow> r - a \<ge> dh_MinAllocation h))"

definition released_by_monitor :: "Duration \<Rightarrow> DedicatedHost \<Rightarrow> DedicatedHost \<Rightarrow> bool" where
  "released_by_monitor idle h h' \<longleftrightarrow>
     dh_State h = ''allocated'' \<and> dh_CurrentInstanceID h = [] \<and>
     (\<exists>a r. dh_AllocatedAt h = Some a \<and> r - a > idle \<and>
            h' = host_row (h\<lparr>dh_State := ''available'', dh_ReleasedAt := Some r\<rparr>))"

definition idle_monitor :: "Duration \<Rightarrow> CloudInstanceMonitor" where
  "idle_monitor idle =
     \<lparr>mon_manager = sample_manager, mon_config = sample_config\<lparr>cfg_IdleHostRelease := idle\<rparr>\<rparr>"

definition idle_host_world :: "Time \<Rightarrow> World" where
  "idle_host_world t0 =
     sample_world
       \<lparr>store := \<lparr>instances = [],
                   hosts = [sample_host ''h-1'' ''allocated'' (Some (10 * Hour)) (24 * Hour)],
                   faults = []\<rparr>,
        clock := (\<lambda>k. t0 + int k)\<rparr>"

text \<open>
  The amount of one interval as a number: the \<^verbatim>\<open>float64\<close> product of the rate and the
  hours with its fraction cut off, and 1 when that is below 1. \<open>accrue\<close> adds it to a running
  instance with a positive rate, and \<open>accrual_fits\<close> says that neither the amount nor the new
  total leaves the 64 bits of an \<^verbatim>\<open>int\<close>.
\<close>

definition amount :: "int \<Rightarrow> Duration \<Rightarrow> int" where
  "amount rate interval = max 1 (trunc (float64 (float64 (of_int rate) * Hours interval)))"

definition accrue :: "Duration \<Rightarrow> CloudInstance \<Rightarrow> CloudInstance" where
  "accrue interval i =
     (if ci_State i = InstanceStateRunning \<and> ci_HourlyRateCents i > 0
      then i\<lparr>ci_AccruedCostCents :=
               ci_AccruedCostCents i + amount (ci_HourlyRateCents i) interval\<rparr>
      else i)"

definition accrual_fits :: "Duration \<Rightarrow> CloudInstance \<Rightarrow> bool" where
  "accrual_fits interval i \<longleftrightarrow>
     in_int64 (trunc (float64 (float64 (of_int (ci_HourlyRateCents i)) * Hours interval))) \<and>
     in_int64 (ci_AccruedCostCents i + amount (ci_HourlyRateCents i) interval)"

definition interval_monitor :: "Duration \<Rightarrow> CloudInstanceMonitor" where
  "interval_monitor interval =
     \<lparr>mon_manager = sample_manager, mon_config = sample_config\<lparr>cfg_MonitorInterval := interval\<rparr>\<rparr>"

definition accrual_world :: World where
  "accrual_world =
     sample_world
       \<lparr>store := \<lparr>instances =
            [sample_instance ''i1'' PlatformWindows InstanceStateRunning ''team-a'' 190,
             sample_instance ''i2'' PlatformLinux InstanceStateRunning ''team-a'' 1,
             sample_instance ''i3'' PlatformMacOS InstanceStateStopped ''team-a'' 120,
             sample_instance ''i4'' PlatformLinux InstanceStateRunning ''team-b'' 0,
             sample_instance ''i5'' PlatformMacOS InstanceStateRunning ''team-b'' 7200],
          hosts = [], faults = []\<rparr>\<rparr>"

section \<open>Properties\<close>

subsection \<open>EventBus: the ring buffer and Recent\<close>

lemma buffer_Publish:
  "buffer (Publish eb e uuid now) =
     (if int (length (buffer eb)) \<ge> bufferSize eb then drop 1 (buffer eb) else buffer eb)
       @ [stamp e uuid now]"
  by (simp add: Publish_def Let_def)

lemma bufferSize_Publish: "bufferSize (Publish eb e uuid now) = bufferSize eb"
  by (simp add: Publish_def Let_def)

lemma bufferSize_publish_all: "bufferSize (publish_all eb ps) = bufferSize eb"
  by (induction eb ps rule: publish_all.induct) (simp_all add: bufferSize_Publish)

lemma bus_ok_New: "bus_ok (NewEventBus n)"
  by (simp add: bus_ok_def NewEventBus_def)

lemma bus_ok_nat:
  "bus_ok eb \<Longrightarrow> length (buffer eb) \<le> nat (bufferSize eb) \<and> 1 \<le> nat (bufferSize eb)"
  unfolding bus_ok_def by linarith

lemma drop_drop_append:
  "k \<le> length xs \<Longrightarrow> drop m (drop k xs @ ys) = drop (m + k) (xs @ ys)"
proof -
  assume k: "k \<le> length xs"
  have "drop (m + k) (xs @ ys) = drop m (drop k (xs @ ys))" by (simp only: drop_drop)
  also have "drop k (xs @ ys) = drop k xs @ ys" using k by simp
  finally show ?thesis by (rule sym)
qed

lemma buffer_Publish_ok:
  assumes "bus_ok eb"
  shows "buffer (Publish eb e uuid now) =
           drop (Suc (length (buffer eb)) - nat (bufferSize eb)) (buffer eb @ [stamp e uuid now])"
proof (cases "int (length (buffer eb)) \<ge> bufferSize eb")
  case True
  with bus_ok_nat[OF assms] have len: "length (buffer eb) = nat (bufferSize eb)"
    by linarith
  with bus_ok_nat[OF assms] have pos: "1 \<le> length (buffer eb)" by simp
  have "Suc (length (buffer eb)) - nat (bufferSize eb) = 1" using len by simp
  moreover have "drop 1 (buffer eb @ [stamp e uuid now]) = drop 1 (buffer eb) @ [stamp e uuid now]"
    using pos by simp
  ultimately show ?thesis using True by (simp only: buffer_Publish if_True)
next
  case False
  then have "Suc (length (buffer eb)) - nat (bufferSize eb) = 0" by linarith
  with False show ?thesis by (simp add: buffer_Publish)
qed

lemma bus_ok_Publish: "bus_ok eb \<Longrightarrow> bus_ok (Publish eb e uuid now)"
  by (auto simp: bus_ok_def buffer_Publish bufferSize_Publish)

lemma bus_ok_publish_all: "bus_ok eb \<Longrightarrow> bus_ok (publish_all eb ps)"
  by (induction eb ps rule: publish_all.induct) (simp_all add: bus_ok_Publish)

lemma buffer_publish_all:
  "bus_ok eb \<Longrightarrow>
   buffer (publish_all eb ps) =
     drop (length (buffer eb) + length ps - nat (bufferSize eb)) (buffer eb @ stamped ps)"
proof (induction eb ps rule: publish_all.induct)
  case (1 eb)
  then show ?case using bus_ok_nat[of eb] by (simp add: stamped_def)
next
  case (2 eb e uuid now ps)
  let ?eb1 = "Publish eb e uuid now"
  let ?x = "stamp e uuid now"
  define c where "c = nat (bufferSize eb)"
  define l where "l = length (buffer eb)"
  define k where "k = Suc l - c"
  have lc: "l \<le> c" "1 \<le> c" using bus_ok_nat[OF 2(2)] by (simp_all add: c_def l_def)
  have ok1: "bus_ok ?eb1" using 2(2) by (rule bus_ok_Publish)
  have b1: "buffer ?eb1 = drop k (buffer eb @ [?x])"
    using buffer_Publish_ok[OF 2(2)] by (simp add: k_def l_def c_def)
  have kl: "k \<le> length (buffer eb @ [?x])" by (simp add: k_def l_def)
  have len1: "length (buffer ?eb1) = Suc l - k"
    by (simp add: b1 l_def)
  have "buffer (publish_all ?eb1 ps) =
          drop (length (buffer ?eb1) + length ps - c) (buffer ?eb1 @ stamped ps)"
    using 2(1)[OF ok1] by (simp add: bufferSize_Publish c_def)
  also have "\<dots> = drop (Suc l - k + length ps - c + k) ((buffer eb @ [?x]) @ stamped ps)"
    unfolding b1 len1[unfolded b1] using kl by (rule drop_drop_append)
  also have "Suc l - k + length ps - c + k = l + Suc (length ps) - c"
    using lc by (auto simp: k_def)
  finally show ?case by (simp add: stamped_def l_def c_def)
qed

lemma Recent_eq:
  "Recent eb limit =
     (if 0 < limit \<and> limit \<le> int (length (buffer eb))
      then drop (length (buffer eb) - nat limit) (buffer eb) else buffer eb)"
  by (auto simp: Recent_def Let_def nat_diff_distrib)

text \<open>
  C7 (amended). On a bus made by \<^verbatim>\<open>NewEventBus\<close>, after any earlier publishes:
  \<^verbatim>\<open>Recent(N)\<close> right after \<open>N\<close> publishes returns exactly those \<open>N\<close> events, as \<^verbatim>\<open>Publish\<close>
  stamped them and in publish order, provided \<open>1 \<le> N \<le> bufferSize\<close>. The buffer holds the
  last \<open>bufferSize\<close> published events (the oldest is evicted when it is full), and
  \<^verbatim>\<open>Recent(limit)\<close> returns its last \<open>limit\<close> events in publish order when
  \<open>0 < limit \<le> len(buffer)\<close>, and the whole buffer otherwise.
\<close>

theorem Recent_after_publishes:
  "(0 < length ps \<and> int (length ps) \<le> bufferSize (NewEventBus n) \<longrightarrow>
      Recent (publish_all (publish_all (NewEventBus n) qs) ps) (int (length ps)) = stamped ps) \<and>
   buffer (publish_all (NewEventBus n) qs) =
     drop (length qs - nat (bufferSize (NewEventBus n))) (stamped qs) \<and>
   Recent (publish_all (NewEventBus n) qs) limit =
     (let b = buffer (publish_all (NewEventBus n) qs)
      in if 0 < limit \<and> limit \<le> int (length b) then drop (length b - nat limit) b else b)"
proof (intro conjI impI)
  let ?eb = "publish_all (NewEventBus n) qs"
  have ok: "bus_ok ?eb" by (simp add: bus_ok_publish_all bus_ok_New)
  show "buffer ?eb = drop (length qs - nat (bufferSize (NewEventBus n))) (stamped qs)"
    using buffer_publish_all[OF bus_ok_New, of n qs] by (simp add: NewEventBus_def)
  show "Recent ?eb limit =
     (let b = buffer ?eb
      in if 0 < limit \<and> limit \<le> int (length b) then drop (length b - nat limit) b else b)"
    by (simp add: Recent_eq Let_def)
  assume a: "0 < length ps \<and> int (length ps) \<le> bufferSize (NewEventBus n)"
  let ?c = "nat (bufferSize ?eb)"
  let ?b = "buffer (publish_all ?eb ps)"
  have c: "bufferSize ?eb = bufferSize (NewEventBus n)" by (simp add: bufferSize_publish_all)
  have b: "?b = drop (length (buffer ?eb) + length ps - ?c) (buffer ?eb @ stamped ps)"
    using ok by (rule buffer_publish_all)
  have le: "length (buffer ?eb) \<le> ?c" using bus_ok_nat[OF ok] by simp
  have psc: "length ps \<le> ?c" using a c by linarith
  have lenb: "length ?b = length (buffer ?eb) + length ps - (length (buffer ?eb) + length ps - ?c)"
    by (simp add: b stamped_def)
  have ge: "length ps \<le> length ?b" using le psc by (simp add: lenb)
  have "Recent (publish_all ?eb ps) (int (length ps)) = drop (length ?b - length ps) ?b"
    using a ge by (simp add: Recent_eq)
  also have "\<dots> = drop (length (buffer ?eb)) (buffer ?eb @ stamped ps)"
    using le psc by (subst b, simp add: lenb)
  finally show "Recent (publish_all ?eb ps) (int (length ps)) = stamped ps" by simp
qed

theorem Recent_after_publishes_witness:
  "(0 < length [(sample_event ''b'' 2, ''u2'', 6), (sample_event [] 0, ''u3'', 7)] \<and>
    int (length [(sample_event ''b'' 2, ''u2'', 6), (sample_event [] 0, ''u3'', 7)])
      \<le> bufferSize (NewEventBus 2)) \<and>
   Recent (publish_all (publish_all (NewEventBus 2) [(sample_event ''a'' 1, ''u1'', 5)])
             [(sample_event ''b'' 2, ''u2'', 6), (sample_event [] 0, ''u3'', 7)]) 2 =
     [sample_event ''b'' 2, sample_event ''u3'' 7]"
  using Recent_after_publishes
          [where n = 2 and qs = "[(sample_event ''a'' 1, ''u1'', 5)]"
             and ps = "[(sample_event ''b'' 2, ''u2'', 6), (sample_event [] 0, ''u3'', 7)]"
             and limit = 1]
  by (simp add: NewEventBus_def stamped_def stamp_def sample_event_def)

text \<open>
  C7 as stated fails when \<open>N\<close> exceeds the buffer size: on a bus of size 2, \<^verbatim>\<open>Recent(3)\<close>
  after three publishes returns the last two events only.
\<close>

theorem Recent_counterexample:
  "Recent (publish_all (NewEventBus 2)
             [(sample_event ''a'' 1, ''u1'', 5), (sample_event ''b'' 2, ''u2'', 6),
              (sample_event ''c'' 3, ''u3'', 7)]) 3
     = [sample_event ''b'' 2, sample_event ''c'' 3] \<and>
   Recent (publish_all (NewEventBus 2)
             [(sample_event ''a'' 1, ''u1'', 5), (sample_event ''b'' 2, ''u2'', 6),
              (sample_event ''c'' 3, ''u3'', 7)]) 3
     \<noteq> [sample_event ''a'' 1, sample_event ''b'' 2, sample_event ''c'' 3]"
  by (simp add: NewEventBus_def Publish_def Recent_def stamp_def sample_event_def Let_def)

subsection \<open>The Kubernetes provisioner: start and stop\<close>

text \<open>
  C8. For every instance id (and every provisioner and state of the cluster) \<^verbatim>\<open>StartInstance\<close>
  of the Kubernetes provisioner fails with the error ``start not supported for K8s pods;
  create a new instance instead'' and changes nothing, and \<^verbatim>\<open>StopInstance\<close> is
  \<^verbatim>\<open>TerminateInstance\<close>: the same result and the same effect on the cluster.
\<close>

theorem k8s_Start_unsupported_Stop_terminates:
  "k8s_StartInstance p instanceID w =
     (Some (ErrorString ''start not supported for K8s pods; create a new instance instead''), w) \<and>
   k8s_StopInstance p instanceID w = k8s_TerminateInstance p instanceID w"
  by (simp add: k8s_StartInstance_def k8s_StopInstance_def)

theorem k8s_Start_unsupported_Stop_terminates_witness:
  "fst (k8s_StartInstance \<lparr>k8s_DefaultImage = ''img''\<rparr> ''inst-1''
          (sample_world\<lparr>k8s := \<lparr>pods = [sample_pod], k8s_faults = []\<rparr>\<rparr>)) =
     Some (ErrorString ''start not supported for K8s pods; create a new instance instead'') \<and>
   fst (k8s_StopInstance \<lparr>k8s_DefaultImage = ''img''\<rparr> ''inst-1''
          (sample_world\<lparr>k8s := \<lparr>pods = [sample_pod], k8s_faults = []\<rparr>\<rparr>)) = None \<and>
   pods (k8s (snd (k8s_StopInstance \<lparr>k8s_DefaultImage = ''img''\<rparr> ''inst-1''
          (sample_world\<lparr>k8s := \<lparr>pods = [sample_pod], k8s_faults = []\<rparr>\<rparr>)))) = []"
  using k8s_Start_unsupported_Stop_terminates
          [of "\<lparr>k8s_DefaultImage = ''img''\<rparr>" "''inst-1''"
              "sample_world\<lparr>k8s := \<lparr>pods = [sample_pod], k8s_faults = []\<rparr>\<rparr>"]
  by (simp add: k8s_TerminateInstance_def findPodByInstanceID_def pods_List_def pods_Delete_def
        k8s_call_def api_call_def sample_world_def sample_pod_def Let_def)

subsection \<open>The AWS provisioner: GetInstance and terminated instances\<close>

lemma first_instance_mem:
  "first_instance out = Inr i \<Longrightarrow> \<exists>res \<in> set out. i \<in> set res"
  by (induction out) (auto split: list.splits)

lemma first_instance_empty:
  "\<forall>res \<in> set out. res = [] \<Longrightarrow> first_instance out = Inl ErrInstanceNotFound"
  by (induction out) auto

lemma DescribeInstances_sound:
  "DescribeInstances flts w = (Inr out, w1) \<Longrightarrow> res \<in> set out \<Longrightarrow> i \<in> set res \<Longrightarrow>
   list_all (\<lambda>flt. filter_ok flt i) flts"
  by (auto simp: DescribeInstances_def Let_def split: prod.splits option.splits)

lemma describeInstanceByTag_state:
  assumes "describeInstanceByTag p instanceID w = (Inr i, w1)"
  shows "ec2_StateName i \<in> {''pending'', ''running'', ''stopping'', ''stopped''}"
proof -
  from assms obtain out where
    d: "DescribeInstances
          [TagFilter ''hanzo.ai/cloud-instance'' [instanceID],
           StateNameFilter [''pending'', ''running'', ''stopping'', ''stopped'']] w = (Inr out, w1)"
    and f: "first_instance out = Inr i"
    by (auto simp: describeInstanceByTag_def split: prod.splits sum.splits)
  from first_instance_mem[OF f] obtain res where "res \<in> set out" "i \<in> set res" by blast
  from DescribeInstances_sound[OF d this] show ?thesis by simp
qed

lemma describeInstanceByTag_gone:
  assumes ok: "fst (api_call (ec2_faults (ec2 w))) = None"
    and gone: "\<forall>res \<in> set (reservations (ec2 w)). \<forall>i \<in> set res.
                 (''hanzo.ai/cloud-instance'', instanceID) \<in> set (ec2_Tags i) \<longrightarrow>
                 ec2_StateName i \<in> {''shutting-down'', ''terminated''}"
  shows "fst (describeInstanceByTag p instanceID w) = Inl ErrInstanceNotFound"
proof -
  have no: "\<not> list_all (\<lambda>flt. filter_ok flt i)
            [TagFilter ''hanzo.ai/cloud-instance'' [instanceID],
             StateNameFilter [''pending'', ''running'', ''stopping'', ''stopped'']]"
    if "res \<in> set (reservations (ec2 w))" "i \<in> set res" for res i
    using gone[rule_format, OF that] by auto
  have "filter (\<lambda>i. list_all (\<lambda>flt. filter_ok flt i)
            [TagFilter ''hanzo.ai/cloud-instance'' [instanceID],
             StateNameFilter [''pending'', ''running'', ''stopping'', ''stopped'']]) res = []"
    if "res \<in> set (reservations (ec2 w))" for res
    unfolding filter_empty_conv using no[OF that] by blast
  then have "filter (\<lambda>res. res \<noteq> [])
          (map (filter (\<lambda>i. list_all (\<lambda>flt. filter_ok flt i)
            [TagFilter ''hanzo.ai/cloud-instance'' [instanceID],
             StateNameFilter [''pending'', ''running'', ''stopping'', ''stopped'']]))
            (reservations (ec2 w))) = []"
    by (auto simp: filter_empty_conv)
  moreover obtain f rest where ac: "api_call (ec2_faults (ec2 w)) = (f, rest)"
    by (cases "api_call (ec2_faults (ec2 w))")
  moreover from ok ac have "f = None" by simp
  ultimately show ?thesis
    by (simp add: describeInstanceByTag_def DescribeInstances_def Let_def)
qed

text \<open>
  C9. When the \<^verbatim>\<open>DescribeInstances\<close> call itself succeeds and every EC2 instance tagged
  with the instance id is in state \<^verbatim>\<open>shutting-down\<close> or \<^verbatim>\<open>terminated\<close>, \<^verbatim>\<open>GetInstance\<close>
  returns \<^verbatim>\<open>ErrInstanceNotFound\<close>, because the lookup asks only for the states pending,
  running, stopping and stopped. Whatever EC2 holds, an instance that \<^verbatim>\<open>GetInstance\<close>
  returns is never in state terminated (it is provisioning, running or stopped), although
  \<^verbatim>\<open>ec2StateToInstanceState\<close> maps both provider states to terminated.
\<close>

theorem aws_GetInstance_never_terminated:
  "(fst (api_call (ec2_faults (ec2 w))) = None \<and>
    (\<forall>res \<in> set (reservations (ec2 w)). \<forall>i \<in> set res.
        (''hanzo.ai/cloud-instance'', instanceID) \<in> set (ec2_Tags i) \<longrightarrow>
        ec2_StateName i \<in> {''shutting-down'', ''terminated''})
      \<longrightarrow> fst (aws_GetInstance p instanceID w) = Inl ErrInstanceNotFound) \<and>
   (\<forall>inst. fst (aws_GetInstance p instanceID w) = Inr inst \<longrightarrow>
      ci_State inst \<noteq> InstanceStateTerminated \<and>
      ci_State inst \<in> {InstanceStateProvisioning, InstanceStateRunning, InstanceStateStopped}) \<and>
   ec2StateToInstanceState ''shutting-down'' = InstanceStateTerminated \<and>
   ec2StateToInstanceState ''terminated'' = InstanceStateTerminated"
proof (intro conjI impI allI)
  assume a: "fst (api_call (ec2_faults (ec2 w))) = None \<and>
    (\<forall>res \<in> set (reservations (ec2 w)). \<forall>i \<in> set res.
        (''hanzo.ai/cloud-instance'', instanceID) \<in> set (ec2_Tags i) \<longrightarrow>
        ec2_StateName i \<in> {''shutting-down'', ''terminated''})"
  then have "fst (describeInstanceByTag p instanceID w) = Inl ErrInstanceNotFound"
    by (intro describeInstanceByTag_gone) auto
  then show "fst (aws_GetInstance p instanceID w) = Inl ErrInstanceNotFound"
    by (auto simp: aws_GetInstance_def split: prod.splits sum.splits)
next
  fix inst
  assume g: "fst (aws_GetInstance p instanceID w) = Inr inst"
  then obtain i w1 where d: "describeInstanceByTag p instanceID w = (Inr i, w1)"
    and s: "ci_State inst = ec2StateToInstanceState (ec2_StateName i)"
    by (auto simp: aws_GetInstance_def split: prod.splits sum.splits)
  from describeInstanceByTag_state[OF d] s
  show "ci_State inst \<in> {InstanceStateProvisioning, InstanceStateRunning, InstanceStateStopped}"
    by (auto simp: ec2StateToInstanceState_def)
  then show "ci_State inst \<noteq> InstanceStateTerminated"
    by (auto simp: InstanceStateProvisioning_def InstanceStateRunning_def
          InstanceStateStopped_def InstanceStateTerminated_def)
qed (simp_all add: ec2StateToInstanceState_def)

theorem aws_GetInstance_never_terminated_witness:
  "fst (aws_GetInstance sample_aws ''inst-1''
          (sample_world\<lparr>ec2 := \<lparr>reservations =
             [[sample_ec2_instance ''inst-1'' ''windows'' ''terminated''],
              [sample_ec2_instance ''inst-2'' ''windows'' ''running'']],
             ec2_faults = []\<rparr>\<rparr>)) = Inl ErrInstanceNotFound \<and>
   ec2StateToInstanceState ''terminated'' = InstanceStateTerminated"
  using aws_GetInstance_never_terminated
          [of "sample_world\<lparr>ec2 := \<lparr>reservations =
                 [[sample_ec2_instance ''inst-1'' ''windows'' ''terminated''],
                  [sample_ec2_instance ''inst-2'' ''windows'' ''running'']],
                 ec2_faults = []\<rparr>\<rparr>" "''inst-1''" sample_aws]
  by (simp add: sample_world_def sample_ec2_instance_def api_call_def)

subsection \<open>CloudManager: the gates of CreateInstance\<close>

lemma db_call_tables:
  "instances (snd (db_call s)) = instances s \<and> hosts (snd (db_call s)) = hosts s"
  by (simp add: db_call_def split: list.splits)

lemma Count_tables:
  "instances (snd (CountCloudInstancesByTeam t s)) = instances s \<and>
   hosts (snd (CountCloudInstancesByTeam t s)) = hosts s"
  using db_call_tables[of s]
  by (auto simp: CountCloudInstancesByTeam_def split: prod.splits option.splits)

lemma team_limit_reached_frame:
  "instances (store (snd (team_limit_reached m req w))) = instances (store w) \<and>
   hosts (store (snd (team_limit_reached m req w))) = hosts (store w) \<and>
   k8s (snd (team_limit_reached m req w)) = k8s w \<and>
   ec2 (snd (team_limit_reached m req w)) = ec2 w \<and>
   bus (snd (team_limit_reached m req w)) = bus w \<and>
   calls (snd (team_limit_reached m req w)) = calls w"
  using Count_tables[of "req_TeamID req" "store w"]
  by (auto simp: team_limit_reached_def split: prod.splits)

lemma authorize_unavailable:
  "AuthorizeProvisioning (billing m) (req_TeamID req) (req_Platform req) (req_InstanceType req)
     = Inl err \<Longrightarrow>
   authorize_and_dispatch m req w =
     (Inl ErrBillingServiceUnavailable,
      called (CallAuthorizeProvisioning (req_TeamID req) (req_Platform req)
               (req_InstanceType req)) w)"
  by (simp add: authorize_and_dispatch_def Let_def)

lemma Noop_authorizes:
  "AuthorizeProvisioning NoopBillingClient t p i \<noteq> Inl err"
  by simp

text \<open>
  C5. Suppose the billing authorizer answers the request with an error (the billing service
  is unreachable); only the HTTP client of enabled billing can do that. Then
  \<^verbatim>\<open>CreateInstance\<close>, once past the switch of the subsystem and the team limit, returns
  \<^verbatim>\<open>ErrBillingServiceUnavailable\<close> and has called nothing but the authorizer; in every
  case it calls no provisioner and leaves both tables of the store, the cluster, EC2 and
  the event bus as they were.
\<close>

theorem CreateInstance_billing_unavailable:
  assumes "AuthorizeProvisioning (billing m) (req_TeamID req) (req_Platform req)
             (req_InstanceType req) = Inl err"
  shows "billing m \<noteq> NoopBillingClient \<and>
    instances (store (snd (CreateInstance m req w))) = instances (store w) \<and>
    hosts (store (snd (CreateInstance m req w))) = hosts (store w) \<and>
    k8s (snd (CreateInstance m req w)) = k8s w \<and>
    ec2 (snd (CreateInstance m req w)) = ec2 w \<and>
    bus (snd (CreateInstance m req w)) = bus w \<and>
    (if cfg_Enabled (config m) \<and> \<not> fst (team_limit_reached m req w)
     then fst (CreateInstance m req w) = Inl ErrBillingServiceUnavailable \<and>
          calls (snd (CreateInstance m req w)) =
            calls w @ [CallAuthorizeProvisioning (req_TeamID req) (req_Platform req)
                         (req_InstanceType req)]
     else calls (snd (CreateInstance m req w)) = calls w \<and>
          fst (CreateInstance m req w) \<in> {Inl ErrCloudDisabled, Inl ErrMaxInstancesReached})"
proof -
  have 1: "billing m \<noteq> NoopBillingClient" using assms by auto
  obtain reached w1 where t: "team_limit_reached m req w = (reached, w1)"
    by (cases "team_limit_reached m req w")
  note f = team_limit_reached_frame[of m req w, unfolded t, simplified]
  show ?thesis
  proof (cases "cfg_Enabled (config m)")
    case False
    with 1 show ?thesis by (simp add: CreateInstance_def)
  next
    case True
    show ?thesis
    proof (cases reached)
      case True
      with \<open>cfg_Enabled (config m)\<close> 1 t f show ?thesis by (simp add: CreateInstance_def)
    next
      case False
      with \<open>cfg_Enabled (config m)\<close> 1 t f authorize_unavailable[OF assms, of w1]
      show ?thesis by (simp add: CreateInstance_def called_def)
    qed
  qed
qed

theorem CreateInstance_billing_unavailable_witness:
  "fst (CreateInstance sample_manager (sample_request PlatformLinux ''team-down'') sample_world)
     = Inl ErrBillingServiceUnavailable \<and>
   calls (snd (CreateInstance sample_manager (sample_request PlatformLinux ''team-down'')
                 sample_world))
     = [CallAuthorizeProvisioning ''team-down'' PlatformLinux []] \<and>
   instances (store (snd (CreateInstance sample_manager
                            (sample_request PlatformLinux ''team-down'') sample_world))) = []"
  using CreateInstance_billing_unavailable
          [of sample_manager "sample_request PlatformLinux ''team-down''"
              "ErrorString ''billing service unreachable''" sample_world]
  by (simp add: sample_manager_def sample_request_def sample_world_def sample_remote_def
        sample_config_def Defaults_def NewCloudManager_def RegisterProvisioner_def
        team_limit_reached_def CountCloudInstancesByTeam_def db_call_def)

lemma Count_ok:
  "fst (db_call s) = None \<Longrightarrow>
   fst (CountCloudInstancesByTeam t s) =
     Inr (int (length (filter (counts_for_team t) (instances s))))"
  using db_call_tables[of s]
  by (auto simp: CountCloudInstancesByTeam_def counts_for_team_def InstanceStateTerminated_def
        InstanceStateFailed_def split: prod.splits option.splits
        intro!: arg_cong[where f=length] filter_cong)

lemma Count_error:
  "fst (db_call s) = Some msg \<Longrightarrow>
   fst (CountCloudInstancesByTeam t s) =
     Inl (Wrapped ''failed to count cloud instances'' (ErrorString msg))"
  by (auto simp: CountCloudInstancesByTeam_def split: prod.splits option.splits)

text \<open>
  C6. With the subsystem enabled, a store, a request with a non-empty team id and a count
  query that succeeds: the count is the number of the team's instances that are neither
  terminated nor failed, and if it is at least \<^verbatim>\<open>MaxInstancesPerTeam\<close>, \<^verbatim>\<open>CreateInstance\<close>
  returns \<^verbatim>\<open>ErrMaxInstancesReached\<close> without any call to the billing authorizer (or to a
  provisioner).
\<close>

theorem CreateInstance_team_limit:
  assumes "cfg_Enabled (config m)" and "req_TeamID req \<noteq> []" and "has_store m"
    and "fst (db_call (store w)) = None"
    and "int (length (filter (counts_for_team (req_TeamID req)) (instances (store w))))
           \<ge> cfg_MaxInstancesPerTeam (config m)"
  shows "fst (CreateInstance m req w) = Inl ErrMaxInstancesReached \<and>
         calls (snd (CreateInstance m req w)) = calls w \<and>
         fst (CountCloudInstancesByTeam (req_TeamID req) (store w)) =
           Inr (int (length (filter (counts_for_team (req_TeamID req)) (instances (store w)))))"
proof -
  have c: "fst (CountCloudInstancesByTeam (req_TeamID req) (store w)) =
           Inr (int (length (filter (counts_for_team (req_TeamID req)) (instances (store w)))))"
    using assms(4) by (rule Count_ok)
  then have r: "fst (team_limit_reached m req w)"
    using assms by (auto simp: team_limit_reached_def split: prod.splits)
  obtain w1 where t: "team_limit_reached m req w = (True, w1)"
    using r by (cases "team_limit_reached m req w") auto
  from team_limit_reached_frame[of m req w] t have "calls w1 = calls w" by simp
  with t c assms(1) show ?thesis by (simp add: CreateInstance_def)
qed

theorem CreateInstance_team_limit_witness:
  "fst (CreateInstance sample_manager (sample_request PlatformLinux ''team-a'')
          (sample_world\<lparr>store := \<lparr>instances =
              [sample_instance ''i1'' PlatformLinux InstanceStateRunning ''team-a'' 1,
               sample_instance ''i2'' PlatformLinux InstanceStateTerminated ''team-a'' 1,
               sample_instance ''i3'' PlatformLinux InstanceStateStopped ''team-a'' 1],
              hosts = [], faults = []\<rparr>\<rparr>))
     = Inl ErrMaxInstancesReached \<and>
   calls (snd (CreateInstance sample_manager (sample_request PlatformLinux ''team-a'')
          (sample_world\<lparr>store := \<lparr>instances =
              [sample_instance ''i1'' PlatformLinux InstanceStateRunning ''team-a'' 1,
               sample_instance ''i2'' PlatformLinux InstanceStateTerminated ''team-a'' 1,
               sample_instance ''i3'' PlatformLinux InstanceStateStopped ''team-a'' 1],
              hosts = [], faults = []\<rparr>\<rparr>))) = []"
  using CreateInstance_team_limit
          [of sample_manager "sample_request PlatformLinux ''team-a''"
              "sample_world\<lparr>store := \<lparr>instances =
              [sample_instance ''i1'' PlatformLinux InstanceStateRunning ''team-a'' 1,
               sample_instance ''i2'' PlatformLinux InstanceStateTerminated ''team-a'' 1,
               sample_instance ''i3'' PlatformLinux InstanceStateStopped ''team-a'' 1],
              hosts = [], faults = []\<rparr>\<rparr>"]
  by (simp add: sample_manager_def sample_request_def sample_world_def sample_instance_def
        sample_config_def Defaults_def NewCloudManager_def RegisterProvisioner_def
        counts_for_team_def db_call_def InstanceStateRunning_def InstanceStateTerminated_def
        InstanceStateStopped_def InstanceStateFailed_def)

lemma team_limit_reached_iff:
  "fst (team_limit_reached m req w) \<longleftrightarrow>
     req_TeamID req \<noteq> [] \<and> has_store m \<and>
     (\<exists>n. fst (CountCloudInstancesByTeam (req_TeamID req) (store w)) = Inr n \<and>
          n \<ge> cfg_MaxInstancesPerTeam (config m))"
  by (auto simp: team_limit_reached_def split: prod.splits sum.splits)

lemma authorize_denied:
  "AuthorizeProvisioning (billing m) (req_TeamID req) (req_Platform req) (req_InstanceType req)
     = Inr auth \<Longrightarrow> \<not> Authorized auth \<Longrightarrow>
   authorize_and_dispatch m req w =
     (Inl (Wrapped (Reason auth) ErrBillingNotAuthorized),
      called (CallAuthorizeProvisioning (req_TeamID req) (req_Platform req)
               (req_InstanceType req)) w)"
  by (simp add: authorize_and_dispatch_def Let_def)

lemma dispatch_no_provisioner:
  "AuthorizeProvisioning (billing m) (req_TeamID req) (req_Platform req) (req_InstanceType req)
     = Inr auth \<Longrightarrow> Authorized auth \<Longrightarrow>
   getProvisioner m (req_Platform req) = Inl err \<Longrightarrow>
   authorize_and_dispatch m req w =
     (Inl err,
      called (CallAuthorizeProvisioning (req_TeamID req) (req_Platform req)
               (req_InstanceType req)) w)"
  by (simp add: authorize_and_dispatch_def Let_def)

lemma dispatch_provisioner:
  assumes "AuthorizeProvisioning (billing m) (req_TeamID req) (req_Platform req)
             (req_InstanceType req) = Inr auth"
    and "Authorized auth"
    and "getProvisioner m (req_Platform req) = Inr prov"
    and "has_store m"
    and "prov_CreateInstance prov req
           (called (CallCreateInstance (req_Platform req))
              (EmitInstanceEvent EventInstanceRequested []
                 (Some (JSONMap [(''platform'', req_Platform req),
                                 (''bot_package'', req_BotPackage req),
                                 (''team_id'', req_TeamID req)]))
                 (called (CallAuthorizeProvisioning (req_TeamID req) (req_Platform req)
                           (req_InstanceType req)) w))) = (r, w4)"
  shows "authorize_and_dispatch m req w =
           (case r of
              Inl err \<Rightarrow> (Inl err, w4)
            | Inr inst0 \<Rightarrow>
                (let inst = inst0\<lparr>ci_HourlyRateCents := HourlyCents auth,
                                  ci_BillingTier := Tier auth\<rparr>
                 in (Inr inst,
                     EmitInstanceEvent EventInstanceProvisioning (ci_ID inst)
                       (Some (JSONInstance inst))
                       (w4\<lparr>store := snd (CreateCloudInstance inst (store w4))\<rparr>))))"
  using assms by (simp add: authorize_and_dispatch_def Let_def split: sum.splits)

text \<open>
  C10. If the count query of the team limit returns an error, the limit does not reject:
  \<^verbatim>\<open>CreateInstance\<close> goes on with the billing authorization and the dispatch exactly as
  if there were no limit. The authorizer is called; if it fails the result is
  \<^verbatim>\<open>ErrBillingServiceUnavailable\<close>, if it denies the result is \<^verbatim>\<open>ErrBillingNotAuthorized\<close> with
  its reason, and if no provisioner is registered for the platform the result is that
  error. Otherwise the event \<^verbatim>\<open>instance.requested\<close> is published and the provisioner of the
  platform is called with the request: its error is returned, and its instance is returned
  with the rate and the tier of the authorization, after it was written to the store and
  \<^verbatim>\<open>instance.provisioning\<close> was published. The limit rejects only when the request names
  a team, the manager has a store and the count came back without error and is at least
  the cap.
\<close>

theorem CreateInstance_count_error_fails_open:
  assumes "cfg_Enabled (config m)" and "req_TeamID req \<noteq> []" and "has_store m"
    and "CountCloudInstancesByTeam (req_TeamID req) (store w) = (Inl e, s)"
  shows "\<not> fst (team_limit_reached m req w) \<and>
         CreateInstance m req w = authorize_and_dispatch m req (w\<lparr>store := s\<rparr>) \<and>
         (\<forall>err. AuthorizeProvisioning (billing m) (req_TeamID req) (req_Platform req)
                  (req_InstanceType req) = Inl err \<longrightarrow>
            CreateInstance m req w =
              (Inl ErrBillingServiceUnavailable,
               called (CallAuthorizeProvisioning (req_TeamID req) (req_Platform req)
                        (req_InstanceType req)) (w\<lparr>store := s\<rparr>))) \<and>
         (\<forall>auth. AuthorizeProvisioning (billing m) (req_TeamID req) (req_Platform req)
                  (req_InstanceType req) = Inr auth \<and> \<not> Authorized auth \<longrightarrow>
            CreateInstance m req w =
              (Inl (Wrapped (Reason auth) ErrBillingNotAuthorized),
               called (CallAuthorizeProvisioning (req_TeamID req) (req_Platform req)
                        (req_InstanceType req)) (w\<lparr>store := s\<rparr>))) \<and>
         (\<forall>auth err. AuthorizeProvisioning (billing m) (req_TeamID req) (req_Platform req)
                  (req_InstanceType req) = Inr auth \<and> Authorized auth \<and>
                getProvisioner m (req_Platform req) = Inl err \<longrightarrow>
            CreateInstance m req w =
              (Inl err,
               called (CallAuthorizeProvisioning (req_TeamID req) (req_Platform req)
                        (req_InstanceType req)) (w\<lparr>store := s\<rparr>))) \<and>
         (\<forall>auth prov r w4.
            AuthorizeProvisioning (billing m) (req_TeamID req) (req_Platform req)
              (req_InstanceType req) = Inr auth \<and> Authorized auth \<and>
            getProvisioner m (req_Platform req) = Inr prov \<and>
            prov_CreateInstance prov req
              (called (CallCreateInstance (req_Platform req))
                 (EmitInstanceEvent EventInstanceRequested []
                    (Some (JSONMap [(''platform'', req_Platform req),
                                    (''bot_package'', req_BotPackage req),
                                    (''team_id'', req_TeamID req)]))
                    (called (CallAuthorizeProvisioning (req_TeamID req) (req_Platform req)
                              (req_InstanceType req)) (w\<lparr>store := s\<rparr>)))) = (r, w4) \<longrightarrow>
            CreateInstance m req w =
              (case r of
                 Inl err \<Rightarrow> (Inl err, w4)
               | Inr inst0 \<Rightarrow>
                   (let inst = inst0\<lparr>ci_HourlyRateCents := HourlyCents auth,
                                     ci_BillingTier := Tier auth\<rparr>
                    in (Inr inst,
                        EmitInstanceEvent EventInstanceProvisioning (ci_ID inst)
                          (Some (JSONInstance inst))
                          (w4\<lparr>store := snd (CreateCloudInstance inst (store w4))\<rparr>))))) \<and>
         (\<forall>m' req' w'. fst (team_limit_reached m' req' w') \<longleftrightarrow>
            req_TeamID req' \<noteq> [] \<and> has_store m' \<and>
            (\<exists>n. fst (CountCloudInstancesByTeam (req_TeamID req') (store w')) = Inr n \<and>
                 n \<ge> cfg_MaxInstancesPerTeam (config m')))"
proof -
  have t: "team_limit_reached m req w = (False, w\<lparr>store := s\<rparr>)"
    using assms by (simp add: team_limit_reached_def)
  then have c: "CreateInstance m req w = authorize_and_dispatch m req (w\<lparr>store := s\<rparr>)"
    using assms(1) by (simp add: CreateInstance_def)
  have 1: "\<not> fst (team_limit_reached m req w)" using t by simp
  have 3: "\<forall>err. AuthorizeProvisioning (billing m) (req_TeamID req) (req_Platform req)
                  (req_InstanceType req) = Inl err \<longrightarrow>
            CreateInstance m req w =
              (Inl ErrBillingServiceUnavailable,
               called (CallAuthorizeProvisioning (req_TeamID req) (req_Platform req)
                        (req_InstanceType req)) (w\<lparr>store := s\<rparr>))"
    unfolding c by (simp add: authorize_unavailable)
  have 4: "\<forall>auth. AuthorizeProvisioning (billing m) (req_TeamID req) (req_Platform req)
                  (req_InstanceType req) = Inr auth \<and> \<not> Authorized auth \<longrightarrow>
            CreateInstance m req w =
              (Inl (Wrapped (Reason auth) ErrBillingNotAuthorized),
               called (CallAuthorizeProvisioning (req_TeamID req) (req_Platform req)
                        (req_InstanceType req)) (w\<lparr>store := s\<rparr>))"
    unfolding c by (simp add: authorize_denied)
  have 5: "\<forall>auth err. AuthorizeProvisioning (billing m) (req_TeamID req) (req_Platform req)
                  (req_InstanceType req) = Inr auth \<and> Authorized auth \<and>
                getProvisioner m (req_Platform req) = Inl err \<longrightarrow>
            CreateInstance m req w =
              (Inl err,
               called (CallAuthorizeProvisioning (req_TeamID req) (req_Platform req)
                        (req_InstanceType req)) (w\<lparr>store := s\<rparr>))"
    unfolding c by (simp add: dispatch_no_provisioner)
  have 6: "\<forall>auth prov r w4.
            AuthorizeProvisioning (billing m) (req_TeamID req) (req_Platform req)
              (req_InstanceType req) = Inr auth \<and> Authorized auth \<and>
            getProvisioner m (req_Platform req) = Inr prov \<and>
            prov_CreateInstance prov req
              (called (CallCreateInstance (req_Platform req))
                 (EmitInstanceEvent EventInstanceRequested []
                    (Some (JSONMap [(''platform'', req_Platform req),
                                    (''bot_package'', req_BotPackage req),
                                    (''team_id'', req_TeamID req)]))
                    (called (CallAuthorizeProvisioning (req_TeamID req) (req_Platform req)
                              (req_InstanceType req)) (w\<lparr>store := s\<rparr>)))) = (r, w4) \<longrightarrow>
            CreateInstance m req w =
              (case r of
                 Inl err \<Rightarrow> (Inl err, w4)
               | Inr inst0 \<Rightarrow>
                   (let inst = inst0\<lparr>ci_HourlyRateCents := HourlyCents auth,
                                     ci_BillingTier := Tier auth\<rparr>
                    in (Inr inst,
                        EmitInstanceEvent EventInstanceProvisioning (ci_ID inst)
                          (Some (JSONInstance inst))
                          (w4\<lparr>store := snd (CreateCloudInstance inst (store w4))\<rparr>))))"
    unfolding c using dispatch_provisioner[OF _ _ _ assms(3)] by blast
  show ?thesis
    using 1 c 3 4 5 6 team_limit_reached_iff by blast
qed

theorem CreateInstance_count_error_fails_open_witness:
  "fst (CreateInstance sample_manager (sample_request PlatformLinux ''team-a'')
          (sample_world\<lparr>store := \<lparr>instances =
              [sample_instance ''i1'' PlatformLinux InstanceStateRunning ''team-a'' 1,
               sample_instance ''i2'' PlatformLinux InstanceStateRunning ''team-a'' 1,
               sample_instance ''i3'' PlatformLinux InstanceStateStopped ''team-a'' 1],
              hosts = [], faults = [Some ''connection refused'']\<rparr>\<rparr>))
     = fst (authorize_and_dispatch sample_manager (sample_request PlatformLinux ''team-a'')
          (sample_world\<lparr>store := \<lparr>instances =
              [sample_instance ''i1'' PlatformLinux InstanceStateRunning ''team-a'' 1,
               sample_instance ''i2'' PlatformLinux InstanceStateRunning ''team-a'' 1,
               sample_instance ''i3'' PlatformLinux InstanceStateStopped ''team-a'' 1],
              hosts = [], faults = []\<rparr>\<rparr>)) \<and>
   map pod_Name (pods (k8s (snd (CreateInstance sample_manager
          (sample_request PlatformLinux ''team-a'')
          (sample_world\<lparr>store := \<lparr>instances =
              [sample_instance ''i1'' PlatformLinux InstanceStateRunning ''team-a'' 1,
               sample_instance ''i2'' PlatformLinux InstanceStateRunning ''team-a'' 1,
               sample_instance ''i3'' PlatformLinux InstanceStateStopped ''team-a'' 1],
              hosts = [], faults = [Some ''connection refused'']\<rparr>\<rparr>))))) = [''bot-0a1b2c3d''] \<and>
   calls (snd (CreateInstance sample_manager
          (sample_request PlatformLinux ''team-a'')
          (sample_world\<lparr>store := \<lparr>instances =
              [sample_instance ''i1'' PlatformLinux InstanceStateRunning ''team-a'' 1,
               sample_instance ''i2'' PlatformLinux InstanceStateRunning ''team-a'' 1,
               sample_instance ''i3'' PlatformLinux InstanceStateStopped ''team-a'' 1],
              hosts = [], faults = [Some ''connection refused'']\<rparr>\<rparr>)))
     = [CallAuthorizeProvisioning ''team-a'' PlatformLinux [], CallCreateInstance PlatformLinux] \<and>
   map ev_Type (buffer (bus (snd (CreateInstance sample_manager
          (sample_request PlatformLinux ''team-a'')
          (sample_world\<lparr>store := \<lparr>instances =
              [sample_instance ''i1'' PlatformLinux InstanceStateRunning ''team-a'' 1,
               sample_instance ''i2'' PlatformLinux InstanceStateRunning ''team-a'' 1,
               sample_instance ''i3'' PlatformLinux InstanceStateStopped ''team-a'' 1],
              hosts = [], faults = [Some ''connection refused'']\<rparr>\<rparr>)))))
     = [EventInstanceRequested, EventInstanceProvisioning] \<and>
   map ci_ID (instances (store (snd (CreateInstance sample_manager
          (sample_request PlatformLinux ''team-a'')
          (sample_world\<lparr>store := \<lparr>instances =
              [sample_instance ''i1'' PlatformLinux InstanceStateRunning ''team-a'' 1,
               sample_instance ''i2'' PlatformLinux InstanceStateRunning ''team-a'' 1,
               sample_instance ''i3'' PlatformLinux InstanceStateStopped ''team-a'' 1],
              hosts = [], faults = [Some ''connection refused'']\<rparr>\<rparr>)))))
     = [''i1'', ''i2'', ''i3'', ''0a1b2c3d-x'']"
  using CreateInstance_count_error_fails_open
          [of sample_manager "sample_request PlatformLinux ''team-a''"
              "sample_world\<lparr>store := \<lparr>instances =
              [sample_instance ''i1'' PlatformLinux InstanceStateRunning ''team-a'' 1,
               sample_instance ''i2'' PlatformLinux InstanceStateRunning ''team-a'' 1,
               sample_instance ''i3'' PlatformLinux InstanceStateStopped ''team-a'' 1],
              hosts = [], faults = [Some ''connection refused'']\<rparr>\<rparr>"
              "Wrapped ''failed to count cloud instances'' (ErrorString ''connection refused'')"
              "\<lparr>instances =
              [sample_instance ''i1'' PlatformLinux InstanceStateRunning ''team-a'' 1,
               sample_instance ''i2'' PlatformLinux InstanceStateRunning ''team-a'' 1,
               sample_instance ''i3'' PlatformLinux InstanceStateStopped ''team-a'' 1],
              hosts = [], faults = []\<rparr>"]
  by (simp add: sample_manager_def sample_request_def sample_world_def sample_instance_def
        sample_config_def sample_remote_def Defaults_def NewCloudManager_def
        RegisterProvisioner_def CountCloudInstancesByTeam_def db_call_def
        authorize_and_dispatch_def getProvisioner_def K8sCloudProvisioner_def
        AWSCloudProvisioner_def k8s_CreateInstance_def pods_Create_def k8s_call_def api_call_def
        EmitInstanceEvent_def Publish_def stamp_def NewEventBus_def time_Now_def uuid_New_def
        called_def CreateCloudInstance_def sample_clock_def sample_uuids_def
        PlatformLinux_def PlatformWindows_def PlatformMacOS_def Let_def
        EventInstanceRequested_def EventInstanceProvisioning_def)

subsection \<open>Definitions unfolded when a sample world is evaluated\<close>

lemmas eval_defs =
  sample_manager_def sample_request_def sample_world_def sample_instance_def
  sample_config_def sample_remote_def sample_aws_def sample_ec2_instance_def
  sample_clock_def sample_uuids_def sample_host_def
  Defaults_def NewCloudManager_def RegisterProvisioner_def NewEventBus_def
  db_call_def api_call_def time_Now_def uuid_New_def called_def
  GetCloudInstance_def UpdateCloudInstance_def CreateCloudInstance_def
  GetDedicatedHost_def UpdateDedicatedHost_def ListDedicatedHosts_def
  GetAvailableDedicatedHost_def host_row_def
  EmitInstanceEvent_def Publish_def stamp_def
  getProvisioner_def GetInstance_def resolveInstance_def store_state_def
  K8sCloudProvisioner_def AWSCloudProvisioner_def
  describeInstanceByTag_def DescribeInstances_def ec2_change_state_def RunInstances_def
  RenderUserData_def
  PlatformLinux_def PlatformWindows_def PlatformMacOS_def
  InstanceStateRunning_def InstanceStateStopped_def InstanceStateTerminated_def
  InstanceStateProvisioning_def InstanceStateFailed_def
  EventInstanceStopped_def EventInstanceTerminated_def EventInstanceRunning_def
  Hour_def Second_def signed_divide_int_def Let_def

subsection \<open>CloudManager: Start, Stop and Terminate\<close>

text \<open>
  After a successful provisioner call \<^verbatim>\<open>StartInstance\<close> only updates the store: the bus is
  as the provisioner left it. \<^verbatim>\<open>StopInstance\<close> and \<^verbatim>\<open>TerminateInstance\<close> update the store and
  publish their event last.
\<close>

lemma store_state_bus: "bus (store_state m inst st w) = bus w"
  by (simp add: store_state_def)

lemma StartInstance_success:
  assumes "resolveInstance m instanceID w = (Inr (inst, prov), w1)"
    and "prov_StartInstance prov instanceID (called (CallStartInstance instanceID) w1) = (None, w2)"
  shows "StartInstance m instanceID w = (None, store_state m inst InstanceStateRunning w2) \<and>
         bus (snd (StartInstance m instanceID w)) = bus w2"
  using assms by (simp add: StartInstance_def store_state_bus)

lemma buffer_Emit_last:
  "buffer (bus (EmitInstanceEvent ty ident data w)) \<noteq> [] \<and>
   ev_Type (last (buffer (bus (EmitInstanceEvent ty ident data w)))) = ty \<and>
   ev_InstanceID (last (buffer (bus (EmitInstanceEvent ty ident data w)))) = ident"
  by (simp add: EmitInstanceEvent_def Publish_def stamp_def time_Now_def uuid_New_def Let_def
        split: prod.splits)

lemma StopInstance_success:
  assumes "resolveInstance m instanceID w = (Inr (inst, prov), w1)"
    and "prov_StopInstance prov instanceID (called (CallStopInstance instanceID) w1) = (None, w2)"
  shows "StopInstance m instanceID w =
           (None, EmitInstanceEvent EventInstanceStopped instanceID None
                    (store_state m inst InstanceStateStopped w2)) \<and>
         ev_Type (last (buffer (bus (snd (StopInstance m instanceID w))))) = EventInstanceStopped"
  using assms buffer_Emit_last[of EventInstanceStopped instanceID None]
  by (simp add: StopInstance_def)

lemma TerminateInstance_success:
  assumes "resolveInstance m instanceID w = (Inr (inst, prov), w1)"
    and "prov_TerminateInstance prov instanceID (called (CallTerminateInstance instanceID) w1)
           = (None, w2)"
  shows "TerminateInstance m instanceID w =
           (None, EmitInstanceEvent EventInstanceTerminated instanceID None
                    (store_state m inst InstanceStateTerminated w2)) \<and>
         ev_Type (last (buffer (bus (snd (TerminateInstance m instanceID w)))))
           = EventInstanceTerminated"
  using assms buffer_Emit_last[of EventInstanceTerminated instanceID None]
  by (simp add: TerminateInstance_def)

text \<open>
  C4 at a stopped Windows instance that the store and EC2 both know: \<^verbatim>\<open>StartInstance\<close>
  succeeds and stores the state running, but the event bus stays empty; \<^verbatim>\<open>StopInstance\<close>
  and \<^verbatim>\<open>TerminateInstance\<close> on the running instance publish \<^verbatim>\<open>instance.stopped\<close> and
  \<^verbatim>\<open>instance.terminated\<close>.
\<close>

theorem StartInstance_emits_no_event:
  "fst (StartInstance sample_manager ''inst-1'' stopped_windows_world) = None \<and>
   map ci_State (instances (store (snd (StartInstance sample_manager ''inst-1''
                                          stopped_windows_world)))) = [InstanceStateRunning] \<and>
   buffer (bus (snd (StartInstance sample_manager ''inst-1'' stopped_windows_world))) = [] \<and>
   fst (StopInstance sample_manager ''inst-1'' running_windows_world) = None \<and>
   map ev_Type (buffer (bus (snd (StopInstance sample_manager ''inst-1''
                                    running_windows_world)))) = [EventInstanceStopped] \<and>
   fst (TerminateInstance sample_manager ''inst-1'' running_windows_world) = None \<and>
   map ev_Type (buffer (bus (snd (TerminateInstance sample_manager ''inst-1''
                                    running_windows_world)))) = [EventInstanceTerminated]"
  by (simp add: StartInstance_def StopInstance_def TerminateInstance_def
        aws_StartInstance_def aws_StopInstance_def aws_TerminateInstance_def
        release_tagged_host_def stopped_windows_world_def running_windows_world_def eval_defs)

subsection \<open>The AWS provisioner: a macOS launch that fails\<close>

text \<open>
  C1 at one available host with a minimum allocation of 24 hours and an EC2 that refuses
  \<^verbatim>\<open>RunInstances\<close>: the error is the \<^verbatim>\<open>ProvisionError\<close> around the EC2 error, but the
  release is refused with \<^verbatim>\<open>ErrHostMinAllocation\<close> (the host was allocated a moment ago)
  and the host stays allocated to the instance that was never launched. With a minimum
  allocation of zero the same request does release the host.
\<close>

theorem launchMacOSInstance_failure_keeps_host:
  "fst (launchMacOSInstance sample_aws (sample_request PlatformMacOS ''team-a'')
          ''0a1b2c3d-inst'' (launch_failure_world (24 * Hour)))
     = Inl (ProvisionError ''0a1b2c3d-inst'' PlatformMacOS ''aws''
              (ErrorString ''InsufficientInstanceCapacity'')) \<and>
   map (\<lambda>h. (dh_State h, dh_CurrentInstanceID h, dh_ReleasedAt h))
     (hosts (store (snd (launchMacOSInstance sample_aws (sample_request PlatformMacOS ''team-a'')
                           ''0a1b2c3d-inst'' (launch_failure_world (24 * Hour))))))
     = [(''allocated'', ''0a1b2c3d-inst'', None)] \<and>
   fst (releaseDedicatedHost sample_aws ''dh-h-1''
          (snd (acquireDedicatedHost sample_aws ''0a1b2c3d-inst''
                  (launch_failure_world (24 * Hour)))))
     = Some ErrHostMinAllocation \<and>
   map (\<lambda>h. (dh_State h, dh_CurrentInstanceID h, dh_ReleasedAt h))
     (hosts (store (snd (launchMacOSInstance sample_aws (sample_request PlatformMacOS ''team-a'')
                           ''0a1b2c3d-inst'' (launch_failure_world 0)))))
     = [(''available'', [], Some 1002)]"
  by (simp add: launchMacOSInstance_def acquireDedicatedHost_def releaseDedicatedHost_def
        launch_failure_world_def eval_defs)

subsection \<open>Dedicated hosts: release and the minimum allocation\<close>

lemma upsert_map:
  "distinct (map key rows) \<Longrightarrow> x0 \<in> set rows \<Longrightarrow> key x = key x0 \<Longrightarrow>
   upsert key x rows = map (\<lambda>r. if r = x0 then x else r) rows"
proof (induction rows)
  case Nil
  then show ?case by simp
next
  case (Cons y ys)
  show ?case
  proof (cases "key y = key x")
    case True
    with Cons.prems have "y = x0" by (auto simp: image_iff)
    moreover from this Cons.prems have "x0 \<notin> set ys" by auto
    then have "map (\<lambda>r. if r = x0 then x else r) ys = ys" by (induction ys) auto
    ultimately show ?thesis using True by simp
  next
    case False
    with Cons.prems have "y \<noteq> x0" "x0 \<in> set ys" by auto
    with Cons False show ?thesis by simp
  qed
qed

lemma db_call_hosts: "hosts (snd (db_call s)) = hosts s"
  by (simp add: db_call_def split: list.splits)

lemma UpdateDedicatedHost_hosts:
  "UpdateDedicatedHost h s = (e, s') \<Longrightarrow>
   hosts s' = (case e of None \<Rightarrow> upsert dh_ID (host_row h) (hosts s) | Some err \<Rightarrow> hosts s)"
  using db_call_hosts[of s]
  by (auto simp: UpdateDedicatedHost_def split: prod.splits option.splits)

lemma GetDedicatedHost_mem:
  "GetDedicatedHost ident s = (Inr h, s') \<Longrightarrow>
   h \<in> set (hosts s) \<and> dh_ID h = ident \<and> hosts s' = hosts s"
  using db_call_hosts[of s]
  by (auto simp: GetDedicatedHost_def find_Some_iff split: prod.splits option.splits)

lemma GetDedicatedHost_err:
  "GetDedicatedHost ident s = (Inl e, s') \<Longrightarrow> hosts s' = hosts s"
  using db_call_hosts[of s]
  by (auto simp: GetDedicatedHost_def split: prod.splits option.splits)

lemma ListDedicatedHosts_hosts:
  "ListDedicatedHosts s = (r, s') \<Longrightarrow>
   hosts s' = hosts s \<and> (case r of Inr hs \<Rightarrow> hs = hosts s | Inl e \<Rightarrow> True)"
  using db_call_hosts[of s]
  by (auto simp: ListDedicatedHosts_def split: prod.splits option.splits)

lemma time_Now_simps:
  "fst (time_Now w) = clock w (reads w)"
  "store (snd (time_Now w)) = store w"
  "clock (snd (time_Now w)) = clock w"
  "reads (snd (time_Now w)) = Suc (reads w)"
  by (simp_all add: time_Now_def)

lemma EmitInstanceEvent_frame:
  "store (EmitInstanceEvent ty ident data w) = store w \<and>
   clock (EmitInstanceEvent ty ident data w) = clock w"
  by (simp add: EmitInstanceEvent_def time_Now_def uuid_New_def Let_def split: prod.splits)

lemma dh_ID_host_row [simp]: "dh_ID (host_row h) = dh_ID h"
  by (simp add: host_row_def)

lemma dh_State_host_row [simp]: "dh_State (host_row h) = dh_State h"
  by (simp add: host_row_def)

lemma list_all2_replace:
  assumes "P x0 x" and "\<And>r. P r r"
  shows "list_all2 P rows (map (\<lambda>r. if r = x0 then x else r) rows)"
  using assms by (simp add: list_all2_map2 list_all2_same)


lemma released_by_monitor_final:
  "released_by_monitor idle h h1 \<Longrightarrow> h' = h1 \<or> released_by_monitor idle h1 h' \<Longrightarrow>
   released_by_monitor idle h h'"
  by (auto simp: released_by_monitor_def)

lemma release_loop_rows:
  assumes "mono (clock w)"
    and "distinct (map dh_ID (hosts (store w)))"
    and "distinct (map dh_ID hs)"
    and "set hs \<subseteq> set (hosts (store w))"
  shows "list_all2 (\<lambda>h h'. h' = h \<or> released_by_monitor (cfg_IdleHostRelease (mon_config m)) h h')
           (hosts (store w)) (hosts (store (release_loop m hs w)))"
  using assms
proof (induction hs arbitrary: w)
  case Nil
  then show ?case by (simp add: list_all2_same)
next
  case (Cons host rest)
  let ?idle = "cfg_IdleHostRelease (mon_config m)"
  let ?P = "\<lambda>h h'. h' = h \<or> released_by_monitor ?idle h h'"
  have rest: "distinct (map dh_ID rest)" "set rest \<subseteq> set (hosts (store w))"
    using Cons.prems by auto
  have same: "list_all2 ?P (hosts (store w)) (hosts (store (release_loop m rest w')))"
    if "hosts (store w') = hosts (store w)" "clock w' = clock w" for w'
    using Cons.IH[of w'] Cons.prems rest that by simp
  show ?case
  proof (cases "dh_State host \<noteq> ''allocated'' \<or> dh_CurrentInstanceID host \<noteq> []")
    case True
    then show ?thesis using same[of w] by auto
  next
    case elig: False
    show ?thesis
    proof (cases "dh_AllocatedAt host")
      case None
      with elig show ?thesis using same[of w] by simp
    next
      case (Some idleSince)
      let ?t = "clock w (reads w)"
      let ?w1 = "snd (time_Now w)"
      show ?thesis
      proof (cases "?t - idleSince > ?idle")
        case False
        with elig Some show ?thesis
          using same[of ?w1] by (simp add: time_Now_def)
      next
        case due: True
        let ?now = "clock w (Suc (reads w))"
        let ?w2 = "snd (time_Now ?w1)"
        let ?host1 = "host\<lparr>dh_State := ''available'', dh_ReleasedAt := Some ?now\<rparr>"
        obtain e s where u: "UpdateDedicatedHost ?host1 (store ?w2) = (e, s)"
          by (cases "UpdateDedicatedHost ?host1 (store ?w2)")
        let ?w3 = "?w2\<lparr>store := s\<rparr>"
        have st2: "store ?w2 = store w" by (simp add: time_Now_def)
        have step: "release_loop m (host # rest) w =
              (case e of Some err \<Rightarrow> release_loop m rest ?w3
               | None \<Rightarrow> release_loop m rest
                           (EmitInstanceEvent EventHostReleased (dh_HostID ?host1) None ?w3))"
          using elig Some due u by (cases e) (simp_all add: time_Now_def Let_def)
        show ?thesis
        proof (cases e)
          case (Some err)
          then have "hosts s = hosts (store w)"
            using UpdateDedicatedHost_hosts[OF u] st2 by simp
          then show ?thesis
            using same[of ?w3] step Some by (simp add: time_Now_def)
        next
          case None
          let ?w4 = "EmitInstanceEvent EventHostReleased (dh_HostID ?host1) None ?w3"
          have mem: "host \<in> set (hosts (store w))" using Cons.prems by simp
          have hs: "hosts s = map (\<lambda>r. if r = host then host_row ?host1 else r) (hosts (store w))"
            using UpdateDedicatedHost_hosts[OF u] None st2
              upsert_map[OF Cons.prems(2) mem, of "host_row ?host1"] by simp
          have w4: "hosts (store ?w4) = hosts s" "clock ?w4 = clock w"
            using EmitInstanceEvent_frame[of EventHostReleased "dh_HostID ?host1" None ?w3]
            by (simp_all add: time_Now_def)
          have "?t \<le> ?now" using Cons.prems(1) by (simp add: mono_def)
          with due have "?now - idleSince > ?idle" by linarith
          with elig \<open>dh_AllocatedAt host = Some idleSince\<close>
          have rel: "released_by_monitor ?idle host (host_row ?host1)"
            by (auto simp: released_by_monitor_def)
          have first: "list_all2 ?P (hosts (store w)) (hosts s)"
            unfolding hs by (rule list_all2_replace) (use rel in auto)
          have ids: "map dh_ID (hosts s) = map dh_ID (hosts (store w))"
            unfolding hs by (induction "hosts (store w)") auto
          have sub: "set rest \<subseteq> set (hosts s)"
          proof
            fix y assume y: "y \<in> set rest"
            then have "dh_ID y \<noteq> dh_ID host" using Cons.prems(3) by (auto simp: image_iff)
            then have "y \<noteq> host" by auto
            moreover have "y \<in> set (hosts (store w))" using y rest by auto
            ultimately show "y \<in> set (hosts s)" unfolding hs by auto
          qed
          have second: "list_all2 ?P (hosts s) (hosts (store (release_loop m rest ?w4)))"
            using Cons.IH[of ?w4] Cons.prems(1,2) rest(1) sub w4 ids by simp
          have "list_all2 ?P (hosts (store w)) (hosts (store (release_loop m rest ?w4)))"
            using first second
          proof (rule list_all2_trans[rotated])
            fix a b c
            assume "b = a \<or> released_by_monitor ?idle a b" "c = b \<or> released_by_monitor ?idle b c"
            then show "c = a \<or> released_by_monitor ?idle a c"
              using released_by_monitor_final[of ?idle a b c] by auto
          qed
          then show ?thesis using step None by simp
        qed
      qed
    qed
  qed
qed


lemma releaseDedicatedHost_rows:
  assumes "mono (clock w)" and "distinct (map dh_ID (hosts (store w)))"
  shows "list_all2 (\<lambda>h h'. h' = h \<or> released_by_allocator h h')
           (hosts (store w)) (hosts (store (snd (releaseDedicatedHost p hostDBID w))))"
proof (cases "aws_has_store p")
  case False
  then show ?thesis by (simp add: releaseDedicatedHost_def list_all2_same)
next
  case True
  obtain r s where g: "GetDedicatedHost hostDBID (store w) = (r, s)"
    by (cases "GetDedicatedHost hostDBID (store w)")
  show ?thesis
  proof (cases r)
    case (Inl err)
    with g True GetDedicatedHost_err[of hostDBID "store w" err s] show ?thesis
      by (simp add: releaseDedicatedHost_def list_all2_same)
  next
    case (Inr host)
    with g GetDedicatedHost_mem[of hostDBID "store w" host s]
    have mem: "host \<in> set (hosts (store w))" and hs: "hosts s = hosts (store w)" by simp_all
    let ?w1 = "w\<lparr>store := s\<rparr>"
    show ?thesis
    proof (cases "dh_AllocatedAt host")
      case None
      let ?now = "clock w (reads w)"
      let ?host1 = "host\<lparr>dh_State := ''available'', dh_CurrentInstanceID := [],
                         dh_ReleasedAt := Some ?now\<rparr>"
      obtain e s3 where u: "UpdateDedicatedHost ?host1 s = (e, s3)"
        by (cases "UpdateDedicatedHost ?host1 s")
      have res: "hosts (store (snd (releaseDedicatedHost p hostDBID w))) = hosts s3"
        using True g Inr None u by (simp add: releaseDedicatedHost_def time_Now_def Let_def)
      have rel: "released_by_allocator host (host_row ?host1)"
        using None by (auto simp: released_by_allocator_def)
      show ?thesis
      proof (cases e)
        case (Some err)
        then show ?thesis using UpdateDedicatedHost_hosts[OF u] hs res
          by (simp add: list_all2_same)
      next
        case e: None
        have "hosts s3 = map (\<lambda>r. if r = host then host_row ?host1 else r) (hosts (store w))"
          using UpdateDedicatedHost_hosts[OF u] e hs
            upsert_map[OF assms(2) mem, of "host_row ?host1"] by simp
        then show ?thesis unfolding res
          using list_all2_replace[of "\<lambda>h h'. h' = h \<or> released_by_allocator h h'"
                  host "host_row ?host1" "hosts (store w)"] rel by simp
      qed
    next
      case (Some allocatedAt)
      let ?t = "clock w (reads w)"
      show ?thesis
      proof (cases "?t < allocatedAt + dh_MinAllocation host")
        case early: True
        then show ?thesis using True g Inr Some hs
          by (simp add: releaseDedicatedHost_def time_Now_def Let_def list_all2_same)
      next
        case late: False
        let ?now = "clock w (Suc (reads w))"
        let ?host1 = "host\<lparr>dh_State := ''available'', dh_CurrentInstanceID := [],
                           dh_ReleasedAt := Some ?now\<rparr>"
        obtain e s3 where u: "UpdateDedicatedHost ?host1 s = (e, s3)"
          by (cases "UpdateDedicatedHost ?host1 s")
        have res: "hosts (store (snd (releaseDedicatedHost p hostDBID w))) = hosts s3"
          using True g Inr Some late u
          by (simp add: releaseDedicatedHost_def time_Now_def Let_def)
        have "?t \<le> ?now" using assms(1) by (simp add: mono_def)
        with late have "?now - allocatedAt \<ge> dh_MinAllocation host" by linarith
        then have rel: "released_by_allocator host (host_row ?host1)"
          using Some by (auto simp: released_by_allocator_def)
        show ?thesis
        proof (cases e)
          case (Some err)
          then show ?thesis using UpdateDedicatedHost_hosts[OF u] hs res
            by (simp add: list_all2_same)
        next
          case e: None
          have "hosts s3 = map (\<lambda>r. if r = host then host_row ?host1 else r) (hosts (store w))"
            using UpdateDedicatedHost_hosts[OF u] e hs
              upsert_map[OF assms(2) mem, of "host_row ?host1"] by simp
          then show ?thesis unfolding res
            using list_all2_replace[of "\<lambda>h h'. h' = h \<or> released_by_allocator h h'"
                    host "host_row ?host1" "hosts (store w)"] rel by simp
        qed
      qed
    qed
  qed
qed

lemma releaseIdleHosts_rows:
  assumes "mono (clock w)" and "distinct (map dh_ID (hosts (store w)))"
  shows "list_all2 (\<lambda>h h'. h' = h \<or> released_by_monitor (cfg_IdleHostRelease (mon_config m)) h h')
           (hosts (store w)) (hosts (store (releaseIdleHosts m w)))"
proof (cases "cfg_AWS_Enabled (mon_config m)")
  case False
  then show ?thesis by (simp add: releaseIdleHosts_def list_all2_same)
next
  case True
  obtain r s where l: "ListDedicatedHosts (store w) = (r, s)"
    by (cases "ListDedicatedHosts (store w)")
  note ls = ListDedicatedHosts_hosts[OF l]
  show ?thesis
  proof (cases r)
    case (Inl err)
    with True l ls show ?thesis by (simp add: releaseIdleHosts_def list_all2_same)
  next
    case (Inr hs)
    with ls have hs: "hs = hosts (store w)" and s: "hosts s = hosts (store w)" by simp_all
    have "list_all2 (\<lambda>h h'. h' = h \<or> released_by_monitor (cfg_IdleHostRelease (mon_config m)) h h')
           (hosts (store (w\<lparr>store := s\<rparr>))) (hosts (store (release_loop m hs (w\<lparr>store := s\<rparr>))))"
      by (rule release_loop_rows) (use assms hs s in simp_all)
    with True l Inr s show ?thesis by (simp add: releaseIdleHosts_def)
  qed
qed

text \<open>
  C2 (amended). With a clock that never runs backwards and a hosts table with distinct ids,
  each row after \<^verbatim>\<open>releaseDedicatedHost\<close> is the row before or that row released with
  \<open>released_at - allocated_at \<ge> min_allocation\<close> (whenever \<open>allocated_at\<close> is set); each row
  after the monitor's \<^verbatim>\<open>releaseIdleHosts\<close> is the row before or an allocated row without
  instance released with \<open>released_at - allocated_at > idle_host_release\<close>, which is at least
  \<open>min_allocation\<close> when \<open>idle_host_release \<ge> min_allocation\<close>. The monitor compares with
  the configured threshold only; it does not read \<open>min_allocation\<close>.
\<close>

theorem host_release_after_minimum:
  assumes "mono (clock w)" and "distinct (map dh_ID (hosts (store w)))"
  shows "list_all2 (\<lambda>h h'. h' = h \<or> released_by_allocator h h')
           (hosts (store w)) (hosts (store (snd (releaseDedicatedHost p hostDBID w)))) \<and>
         list_all2 (\<lambda>h h'. h' = h \<or> released_by_monitor (cfg_IdleHostRelease (mon_config m)) h h')
           (hosts (store w)) (hosts (store (releaseIdleHosts m w))) \<and>
         (\<forall>h h'. released_by_allocator h h' \<longrightarrow>
            dh_State h' = ''available'' \<and>
            (\<exists>r. dh_ReleasedAt h' = Some r \<and>
                 (\<forall>a. dh_AllocatedAt h = Some a \<longrightarrow> r - a \<ge> dh_MinAllocation h))) \<and>
         (\<forall>h h'. released_by_monitor (cfg_IdleHostRelease (mon_config m)) h h' \<longrightarrow>
            dh_State h' = ''available'' \<and>
            (\<exists>a r. dh_AllocatedAt h = Some a \<and> dh_ReleasedAt h' = Some r \<and>
                   r - a > cfg_IdleHostRelease (mon_config m) \<and>
                   (dh_MinAllocation h \<le> cfg_IdleHostRelease (mon_config m) \<longrightarrow>
                      r - a \<ge> dh_MinAllocation h)))"
  using releaseDedicatedHost_rows[OF assms] releaseIdleHosts_rows[OF assms]
  by (auto simp: released_by_allocator_def released_by_monitor_def host_row_def
        split: option.splits)

theorem host_release_after_minimum_witness:
  "mono (clock (idle_host_world (36 * Hour))) \<and>
   distinct (map dh_ID (hosts (store (idle_host_world (36 * Hour))))) \<and>
   map (\<lambda>h. (dh_State h, dh_AllocatedAt h, dh_ReleasedAt h, dh_MinAllocation h))
     (hosts (store (releaseIdleHosts (idle_monitor (25 * Hour)) (idle_host_world (36 * Hour)))))
     = [(''available'', Some 36000000000000, Some 129600000000001, 86400000000000)] \<and>
   map (\<lambda>h. (dh_State h, dh_AllocatedAt h, dh_ReleasedAt h, dh_MinAllocation h))
     (hosts (store (snd (releaseDedicatedHost sample_aws ''dh-h-1''
                           (idle_host_world (36 * Hour))))))
     = [(''available'', Some 36000000000000, Some 129600000000001, 86400000000000)]"
  using host_release_after_minimum
          [of "idle_host_world (36 * Hour)" sample_aws "''dh-h-1''" "idle_monitor (25 * Hour)"]
  by (simp add: mono_def idle_host_world_def idle_monitor_def releaseIdleHosts_def
        releaseDedicatedHost_def EventHostReleased_def eval_defs)

text \<open>
  C2 as stated fails in the monitor's pass: with \<open>idle_host_release\<close> of one hour, a host
  allocated at hour 10 with a minimum allocation of 24 hours is made available at hour 12,
  two hours after its allocation.
\<close>

theorem idle_release_counterexample:
  "map (\<lambda>h. (dh_State h, dh_AllocatedAt h, dh_ReleasedAt h, dh_MinAllocation h))
     (hosts (store (releaseIdleHosts (idle_monitor (1 * Hour)) (idle_host_world (12 * Hour)))))
     = [(''available'', Some 36000000000000, Some 43200000000001, 86400000000000)] \<and>
   (43200000000001 :: int) - 36000000000000 < 86400000000000"
  by (simp add: idle_host_world_def idle_monitor_def releaseIdleHosts_def
        EventHostReleased_def eval_defs)

subsection \<open>Monitor: cost accrual\<close>

lemma db_call_no_faults: "faults s = [] \<Longrightarrow> db_call s = (None, s)"
  by (simp add: db_call_def)

lemma costCents_30s:
  "costCents 190 (Hours (30 * Second)) = 1 \<and> costCents 1 (Hours (30 * Second)) = 1 \<and>
   costCents 7200 (Hours (30 * Second)) = 60"
  by code_simp

text \<open>
  Outside the range of \<^verbatim>\<open>int\<close>: at the largest rate and an interval of two hours the product
  is \<open>2 ^ 64\<close>, the conversion gives (on amd64) the smallest \<^verbatim>\<open>int\<close> and the cost is raised
  to 1.
\<close>

lemma costCents_out_of_range:
  "costCents 9223372036854775807 (Hours (2 * Hour)) = 1"
  by code_simp

lemma accrual_eval:
  "map ci_AccruedCostCents
     (instances (store (accrueUsageCosts (interval_monitor (30 * Second)) accrual_world)))
     = [1, 1, 0, 0, 60]"
  by code_simp

lemma UpdateCloudInstance_no_faults:
  "faults s = [] \<Longrightarrow>
   UpdateCloudInstance x s = (None, s\<lparr>instances := upsert ci_ID x (instances s)\<rparr>)"
  by (simp add: UpdateCloudInstance_def db_call_no_faults)

lemma ListCloudInstances_running:
  assumes "faults s = []"
  shows "ListCloudInstances
           \<lparr>flt_Platform = None, flt_State = Some InstanceStateRunning, flt_TeamID = None,
            flt_Provider = None, flt_Limit = 0, flt_Offset = 0\<rparr> s =
         (Inr (sort_key (\<lambda>i. - ci_CreatedAt i)
                 (filter (\<lambda>i. ci_State i = InstanceStateRunning) (instances s))), s)"
proof -
  have "matches \<lparr>flt_Platform = None, flt_State = Some InstanceStateRunning, flt_TeamID = None,
            flt_Provider = None, flt_Limit = 0, flt_Offset = 0\<rparr> =
          (\<lambda>i. ci_State i = InstanceStateRunning)"
    by (simp add: matches_def fun_eq_iff)
  then show ?thesis
    using assms by (simp add: ListCloudInstances_def db_call_no_faults Let_def)
qed

lemma accrue_loop_rows:
  assumes "faults (store w) = []"
    and "distinct (map ci_ID (instances (store w)))"
    and "distinct (map ci_ID xs)"
    and "set xs \<subseteq> set (instances (store w))"
  shows "instances (store (accrue_loop b h xs w)) =
           map (\<lambda>i. if i \<in> set xs \<and> ci_HourlyRateCents i > 0
                     then i\<lparr>ci_AccruedCostCents :=
                              wrap64 (ci_AccruedCostCents i + costCents (ci_HourlyRateCents i) h)\<rparr>
                     else i)
             (instances (store w))"
  using assms
proof (induction xs arbitrary: w)
  case Nil
  then show ?case by simp
next
  case (Cons x rest)
  let ?bump = "\<lambda>i. i\<lparr>ci_AccruedCostCents :=
                         wrap64 (ci_AccruedCostCents i + costCents (ci_HourlyRateCents i) h)\<rparr>"
  let ?rows = "instances (store w)"
  have rest: "distinct (map ci_ID rest)" "set rest \<subseteq> set ?rows" "x \<in> set ?rows"
    and xrest: "\<forall>y \<in> set rest. ci_ID y \<noteq> ci_ID x"
    using Cons.prems by (auto simp: image_iff)
  show ?case
  proof (cases "ci_HourlyRateCents x \<le> 0")
    case True
    then have "instances (store (accrue_loop b h (x # rest) w)) =
                 map (\<lambda>i. if i \<in> set rest \<and> ci_HourlyRateCents i > 0 then ?bump i else i) ?rows"
      using Cons.IH[of w] Cons.prems(1,2) rest by simp
    also have "\<dots> = map (\<lambda>i. if i \<in> set (x # rest) \<and> ci_HourlyRateCents i > 0
                              then ?bump i else i) ?rows"
      using True by (intro map_cong) auto
    finally show ?thesis .
  next
    case False
    let ?w1 = "w\<lparr>store := (store w)\<lparr>instances := upsert ci_ID (?bump x) ?rows\<rparr>\<rparr>"
    let ?w2 = "called (CallReportUsage (ci_ID x) (ci_Platform x) h (ci_HourlyRateCents x)) ?w1"
    have step: "accrue_loop b h (x # rest) w = accrue_loop b h rest ?w2"
      using False UpdateCloudInstance_no_faults[OF Cons.prems(1), of "?bump x"]
      by (simp add: Let_def)
    have up: "upsert ci_ID (?bump x) ?rows = map (\<lambda>r. if r = x then ?bump x else r) ?rows"
      using upsert_map[OF Cons.prems(2) rest(3), of "?bump x"] by simp
    have rows2: "instances (store ?w2) = map (\<lambda>r. if r = x then ?bump x else r) ?rows"
      by (simp add: called_def up)
    have ids: "map ci_ID (instances (store ?w2)) = map ci_ID ?rows"
      unfolding rows2 by (induction ?rows) auto
    have sub: "set rest \<subseteq> set (instances (store ?w2))"
      unfolding rows2 using rest(2) xrest by auto
    have notin: "?bump x \<notin> set rest" using xrest by auto
    have f2: "faults (store ?w2) = []" using Cons.prems(1) by (simp add: called_def)
    have d2: "distinct (map ci_ID (instances (store ?w2)))"
      using Cons.prems(2) by (simp only: ids)
    have "instances (store (accrue_loop b h rest ?w2)) =
            map (\<lambda>i. if i \<in> set rest \<and> ci_HourlyRateCents i > 0 then ?bump i else i)
              (instances (store ?w2))"
      by (rule Cons.IH[OF f2 d2 rest(1) sub])
    also have "\<dots> = map (\<lambda>i. if i \<in> set (x # rest) \<and> ci_HourlyRateCents i > 0
                              then ?bump i else i) ?rows"
    proof (unfold rows2 map_map, rule map_cong[OF refl])
      fix i
      assume "i \<in> set ?rows"
      show "((\<lambda>i. if i \<in> set rest \<and> ci_HourlyRateCents i > 0 then ?bump i else i) \<circ>
              (\<lambda>r. if r = x then ?bump x else r)) i =
            (if i \<in> set (x # rest) \<and> ci_HourlyRateCents i > 0 then ?bump i else i)"
      proof (cases "i = x")
        case True
        have "x \<in> set (x # rest)" by simp
        with True False notin show ?thesis by (simp only: o_def if_True if_False simp_thms not_le)
      next
        case neq: False
        then have "i \<in> set (x # rest) \<longleftrightarrow> i \<in> set rest" by simp
        with neq show ?thesis by (simp only: o_def if_False)
      qed
    qed
    finally show ?thesis using step by simp
  qed
qed

lemma wrap64_id: "in_int64 n \<Longrightarrow> wrap64 n = n"
  by (simp add: in_int64_def wrap64_def)

lemma costCents_amount:
  "in_int64 (trunc (float64 (float64 (of_int rate) * Hours interval))) \<Longrightarrow>
   costCents rate (Hours interval) = amount rate interval"
  by (simp add: costCents_def go_int_def amount_def Let_def max_def)

lemma costCents_ge_1: "1 \<le> costCents rate h"
  by (simp add: costCents_def Let_def)

lemma amount_ge_1: "1 \<le> amount rate interval"
  by (simp add: amount_def)

text \<open>
  C3 (amended). In a cost-accrual pass in which no store call fails, over a table with
  distinct ids, where for every instance that is charged the amount and the new total are
  within the range of \<^verbatim>\<open>int\<close> (64 bits), every stored instance in state running with
  \<open>hourly_rate_cents > 0\<close> has its \<open>accrued_cost_cents\<close> raised by exactly \<open>amount\<close>, and
  every other instance is kept as it is. \<open>amount\<close> is the \<^verbatim>\<open>float64\<close> product of the rate and
  the interval in hours with its fraction cut off (not rounded to the nearest cent), and 1
  when that is below 1.
\<close>

theorem accrueUsageCosts_amounts:
  assumes "faults (store w) = []" and "distinct (map ci_ID (instances (store w)))"
    and "\<forall>i \<in> set (instances (store w)).
           ci_State i = InstanceStateRunning \<and> ci_HourlyRateCents i > 0 \<longrightarrow>
           accrual_fits (cfg_MonitorInterval (mon_config m)) i"
  shows "instances (store (accrueUsageCosts m w)) =
           map (accrue (cfg_MonitorInterval (mon_config m))) (instances (store w)) \<and>
         (\<forall>rate interval.
            amount rate interval =
              max 1 (trunc (float64 (float64 (of_int rate) * Hours interval))) \<and>
            amount rate interval \<ge> 1)"
proof
  let ?iv = "cfg_MonitorInterval (mon_config m)"
  let ?xs = "sort_key (\<lambda>i. - ci_CreatedAt i)
               (filter (\<lambda>i. ci_State i = InstanceStateRunning) (instances (store w)))"
  have set_xs: "set ?xs = {i \<in> set (instances (store w)). ci_State i = InstanceStateRunning}"
    by auto
  have "distinct (map ci_ID (filter (\<lambda>i. ci_State i = InstanceStateRunning)
                               (instances (store w))))"
    using assms(2) by (rule distinct_map_filter)
  then have dist: "distinct (map ci_ID ?xs)"
    by (simp add: distinct_map)
  have "instances (store (accrueUsageCosts m w)) =
          instances (store (accrue_loop (billing (mon_manager m)) (Hours ?iv) ?xs w))"
    using ListCloudInstances_running[OF assms(1)] by (simp add: accrueUsageCosts_def)
  also have "\<dots> = map (\<lambda>i. if i \<in> set ?xs \<and> ci_HourlyRateCents i > 0
                     then i\<lparr>ci_AccruedCostCents :=
                              wrap64 (ci_AccruedCostCents i
                                      + costCents (ci_HourlyRateCents i) (Hours ?iv))\<rparr>
                     else i) (instances (store w))"
    using assms(1,2) dist set_xs by (intro accrue_loop_rows) auto
  also have "\<dots> = map (accrue ?iv) (instances (store w))"
  proof (rule map_cong[OF refl])
    fix i
    assume mem: "i \<in> set (instances (store w))"
    show "(if i \<in> set ?xs \<and> ci_HourlyRateCents i > 0
           then i\<lparr>ci_AccruedCostCents :=
                    wrap64 (ci_AccruedCostCents i
                            + costCents (ci_HourlyRateCents i) (Hours ?iv))\<rparr>
           else i) = accrue ?iv i"
    proof (cases "ci_State i = InstanceStateRunning \<and> ci_HourlyRateCents i > 0")
      case True
      with assms(3) mem have fits: "accrual_fits ?iv i" by blast
      then have c: "costCents (ci_HourlyRateCents i) (Hours ?iv) = amount (ci_HourlyRateCents i) ?iv"
        by (intro costCents_amount) (simp add: accrual_fits_def)
      have "wrap64 (ci_AccruedCostCents i + costCents (ci_HourlyRateCents i) (Hours ?iv)) =
              ci_AccruedCostCents i + amount (ci_HourlyRateCents i) ?iv"
        unfolding c using fits by (intro wrap64_id) (simp add: accrual_fits_def)
      moreover have "i \<in> set ?xs" using True mem unfolding set_xs by simp
      ultimately show ?thesis using True by (simp only: accrue_def if_True simp_thms)
    next
      case False
      then have "\<not> (i \<in> set ?xs \<and> ci_HourlyRateCents i > 0)" unfolding set_xs by simp
      with False show ?thesis by (simp only: accrue_def if_False)
    qed
  qed
  finally show "instances (store (accrueUsageCosts m w)) =
           map (accrue ?iv) (instances (store w))" .
  show "\<forall>rate interval.
            amount rate interval =
              max 1 (trunc (float64 (float64 (of_int rate) * Hours interval))) \<and>
            amount rate interval \<ge> 1"
    by (simp add: amount_def)
qed

lemma accrual_world_ok:
  "faults (store accrual_world) = [] \<and>
   distinct (map ci_ID (instances (store accrual_world)))"
  by (simp add: accrual_world_def sample_world_def sample_instance_def)

lemma accrual_world_fits:
  "\<forall>i \<in> set (instances (store accrual_world)).
     ci_State i = InstanceStateRunning \<and> ci_HourlyRateCents i > 0 \<longrightarrow>
     accrual_fits (cfg_MonitorInterval (mon_config (interval_monitor (30 * Second)))) i"
  by code_simp

theorem accrueUsageCosts_amounts_witness:
  "faults (store accrual_world) = [] \<and>
   distinct (map ci_ID (instances (store accrual_world))) \<and>
   list_all (\<lambda>i. accrual_fits (30 * Second) i) (instances (store accrual_world)) \<and>
   instances (store (accrueUsageCosts (interval_monitor (30 * Second)) accrual_world)) =
     map (accrue (cfg_MonitorInterval (mon_config (interval_monitor (30 * Second)))))
       (instances (store accrual_world)) \<and>
   map ci_AccruedCostCents
     (instances (store (accrueUsageCosts (interval_monitor (30 * Second)) accrual_world)))
     = [1, 1, 0, 0, 60]"
proof -
  have fits: "list_all (\<lambda>i. accrual_fits (30 * Second) i) (instances (store accrual_world))"
    by code_simp
  show ?thesis
    using accrueUsageCosts_amounts[of accrual_world "interval_monitor (30 * Second)",
            OF _ _ accrual_world_fits]
      accrual_world_ok accrual_eval fits
    by simp
qed

text \<open>
  C3 as stated fails where cutting off and rounding differ: at 190 cents an hour and the
  default interval of 30 seconds the pass adds 1 cent, while
  \<open>round (190 \<times> 30 / 3600) = round 1.58 = 2\<close>.
\<close>

theorem accrual_rounding_counterexample:
  "map (\<lambda>i. (ci_HourlyRateCents i, ci_AccruedCostCents i))
     (instances (store (accrueUsageCosts (interval_monitor (30 * Second)) accrual_world)))
     = [(190, 1), (1, 1), (120, 0), (0, 0), (7200, 60)] \<and>
   max 1 (round ((190 :: rat) * (30 / 3600))) = (2 :: int)"
proof
  show "map (\<lambda>i. (ci_HourlyRateCents i, ci_AccruedCostCents i))
     (instances (store (accrueUsageCosts (interval_monitor (30 * Second)) accrual_world)))
     = [(190, 1), (1, 1), (120, 0), (0, 0), (7200, 60)]"
    by code_simp
  have "\<lfloor>(25 :: rat) / 12\<rfloor> = 2" by (rule floor_unique) simp_all
  then show "max 1 (round ((190 :: rat) * (30 / 3600))) = (2 :: int)"
    by (simp add: round_def)
qed

end
